theory Spec2Isabelle
  imports Complex_Main
begin

section \<open>Numeric values\<close>

text \<open>
  The engine computes on pandas and NumPy float64 columns.  A value is modelled as a
  real number or one of the three special values of the arithmetic: the two
  infinities and NaN, which is also how pandas marks a missing entry.  Arithmetic
  is exact on the finite values (rounding error and overflow are left out, and so
  is the sign of zero) and follows the IEEE rules on the special values: a nonzero
  number divided by zero is an infinity, \<open>0 / 0\<close>, \<open>inf - inf\<close>, \<open>0 * inf\<close>
  and \<open>inf / inf\<close> are NaN, NaN is absorbing, and every comparison with NaN is false.
\<close>

datatype fl = Fin real | PInf | NInf | NaN

fun fneg :: "fl \<Rightarrow> fl" where
  "fneg (Fin a) = Fin (- a)"
| "fneg PInf = NInf"
| "fneg NInf = PInf"
| "fneg NaN = NaN"

fun fadd :: "fl \<Rightarrow> fl \<Rightarrow> fl" where
  "fadd (Fin a) (Fin b) = Fin (a + b)"
| "fadd NaN _ = NaN"
| "fadd _ NaN = NaN"
| "fadd PInf NInf = NaN"
| "fadd NInf PInf = NaN"
| "fadd PInf _ = PInf"
| "fadd NInf _ = NInf"
| "fadd _ PInf = PInf"
| "fadd _ NInf = NInf"

definition fsub :: "fl \<Rightarrow> fl \<Rightarrow> fl" where
  "fsub a b = fadd a (fneg b)"

fun fmul :: "fl \<Rightarrow> fl \<Rightarrow> fl" where
  "fmul (Fin a) (Fin b) = Fin (a * b)"
| "fmul NaN _ = NaN"
| "fmul _ NaN = NaN"
| "fmul (Fin a) PInf = (if a = 0 then NaN else if 0 < a then PInf else NInf)"
| "fmul (Fin a) NInf = (if a = 0 then NaN else if 0 < a then NInf else PInf)"
| "fmul PInf (Fin b) = (if b = 0 then NaN else if 0 < b then PInf else NInf)"
| "fmul NInf (Fin b) = (if b = 0 then NaN else if 0 < b then NInf else PInf)"
| "fmul PInf PInf = PInf"
| "fmul NInf NInf = PInf"
| "fmul PInf NInf = NInf"
| "fmul NInf PInf = NInf"

fun fdiv :: "fl \<Rightarrow> fl \<Rightarrow> fl" where
  "fdiv (Fin a) (Fin b) =
     (if b \<noteq> 0 then Fin (a / b)
      else if 0 < a then PInf else if a < 0 then NInf else NaN)"
| "fdiv NaN _ = NaN"
| "fdiv _ NaN = NaN"
| "fdiv (Fin a) PInf = Fin 0"
| "fdiv (Fin a) NInf = Fin 0"
| "fdiv PInf (Fin b) = (if 0 \<le> b then PInf else NInf)"
| "fdiv NInf (Fin b) = (if 0 \<le> b then NInf else PInf)"
| "fdiv PInf PInf = NaN"
| "fdiv PInf NInf = NaN"
| "fdiv NInf PInf = NaN"
| "fdiv NInf NInf = NaN"

fun fsqrt :: "fl \<Rightarrow> fl" where
  "fsqrt (Fin a) = (if a < 0 then NaN else Fin (sqrt a))"
| "fsqrt PInf = PInf"
| "fsqrt _ = NaN"

fun flt :: "fl \<Rightarrow> fl \<Rightarrow> bool" where
  "flt NaN _ = False"
| "flt _ NaN = False"
| "flt (Fin a) (Fin b) = (a < b)"
| "flt (Fin a) PInf = True"
| "flt (Fin a) NInf = False"
| "flt NInf NInf = False"
| "flt NInf _ = True"
| "flt PInf _ = False"

definition fgt :: "fl \<Rightarrow> fl \<Rightarrow> bool" where
  "fgt a b = flt b a"

fun isnan :: "fl \<Rightarrow> bool" where
  "isnan NaN = True"
| "isnan _ = False"

fun isfinite :: "fl \<Rightarrow> bool" where
  "isfinite (Fin _) = True"
| "isfinite _ = False"

datatype error = ValueError | IndexError | ZeroDivisionError | LinAlgError

section \<open>Series operations of the library\<close>

text \<open>
  A series is a list of values, one per bar.  \<open>shift1\<close> is \<open>Series.shift(1)\<close>: every
  value moves one bar later and the first bar becomes missing.  \<open>diff\<close> is
  \<open>Series.diff()\<close>, the series minus its shift, and \<open>pct_change\<close> is the series
  divided by its shift, minus one.
\<close>

definition shift1 :: "fl list \<Rightarrow> fl list" where
  "shift1 xs = take (length xs) (NaN # xs)"

definition diff :: "fl list \<Rightarrow> fl list" where
  "diff xs = map2 fsub xs (shift1 xs)"

definition pct_change :: "fl list \<Rightarrow> fl list" where
  "pct_change xs = map2 (\<lambda>a b. fsub (fdiv a b) (Fin 1)) xs (shift1 xs)"

text \<open>Sums: NumPy adds every entry, pandas leaves the missing ones out.\<close>

definition fsum :: "fl list \<Rightarrow> fl" where
  "fsum xs = foldl fadd (Fin 0) xs"

definition dropna :: "fl list \<Rightarrow> fl list" where
  "dropna xs = filter (\<lambda>x. \<not> isnan x) xs"

definition fsum_skipna :: "fl list \<Rightarrow> fl" where
  "fsum_skipna xs = fsum (dropna xs)"

definition mean :: "fl list \<Rightarrow> fl" where
  "mean xs = fdiv (fsum xs) (Fin (real (length xs)))"

text \<open>The sample standard deviation (one degree of freedom removed), the default of
  \<open>std()\<close>: it is missing when there are fewer than two observations.\<close>

definition std :: "fl list \<Rightarrow> fl" where
  "std xs =
     (if length xs < 2 then NaN
      else fsqrt (fdiv (fsum (map (\<lambda>x. fmul (fsub x (mean xs)) (fsub x (mean xs))) xs))
                       (Fin (real (length xs) - 1))))"

text \<open>
  \<open>Series.rolling(window=w)\<close> followed by an aggregation.  A negative window is
  refused.  The minimum number of observations defaults to the window length, so a
  position has a value only when the trailing window of \<open>w\<close> bars lies inside the
  series and holds \<open>w\<close> finite values (the rolling routines take a non-finite entry
  as missing); a window of length \<open>0\<close> holds no observation and gives a missing
  value everywhere.
\<close>

definition rolling_nat :: "nat \<Rightarrow> (fl list \<Rightarrow> fl) \<Rightarrow> fl list \<Rightarrow> fl list" where
  "rolling_nat w agg xs =
     map (\<lambda>t. if w = 0 \<or> Suc t < w then NaN
              else if list_all isfinite (take w (drop (Suc t - w) xs))
                   then agg (take w (drop (Suc t - w) xs))
                   else NaN)
         [0..<length xs]"

definition rolling :: "int \<Rightarrow> (fl list \<Rightarrow> fl) \<Rightarrow> fl list \<Rightarrow> error + fl list" where
  "rolling w agg xs = (if w < 0 then Inl ValueError else Inr (rolling_nat (nat w) agg xs))"

text \<open>
  \<open>Series.ewm(span=s).mean()\<close> with the defaults of the library (\<open>adjust=True\<close>,
  \<open>ignore_na=False\<close>, no minimum number of periods): a span below \<open>1\<close> is
  refused; otherwise one pass over the series carries the current average
  \<open>weighted\<close> and the total weight \<open>old_wt\<close> of the observations behind it.
\<close>

fun ewm_loop :: "real \<Rightarrow> fl \<Rightarrow> real \<Rightarrow> fl list \<Rightarrow> fl list" where
  "ewm_loop q weighted old_wt [] = []"
| "ewm_loop q weighted old_wt (cur # rest) =
     (if \<not> isnan weighted then
        (if \<not> isnan cur then
           (let w1 = (if weighted \<noteq> cur
                      then fdiv (fadd (fmul (Fin (old_wt * q)) weighted) (fmul (Fin 1) cur))
                                (Fin (old_wt * q + 1))
                      else weighted)
            in w1 # ewm_loop q w1 (old_wt * q + 1) rest)
         else weighted # ewm_loop q weighted (old_wt * q) rest)
      else if \<not> isnan cur then cur # ewm_loop q cur old_wt rest
      else weighted # ewm_loop q weighted old_wt rest)"

definition ewm_mean :: "int \<Rightarrow> fl list \<Rightarrow> error + fl list" where
  "ewm_mean spn xs =
     (if spn < 1 then Inl ValueError
      else Inr (case xs of
                  [] \<Rightarrow> []
                | x # rest \<Rightarrow> x # ewm_loop (1 - 2 / (real_of_int spn + 1)) x 1 rest))"

text \<open>\<open>cumprod()\<close> leaves a missing entry missing and carries the product past it.\<close>

fun cumprod_from :: "fl \<Rightarrow> fl list \<Rightarrow> fl list" where
  "cumprod_from acc [] = []"
| "cumprod_from acc (x # xs) =
     (if isnan x then NaN # cumprod_from acc xs
      else fmul acc x # cumprod_from (fmul acc x) xs)"

definition cumprod :: "fl list \<Rightarrow> fl list" where
  "cumprod xs = cumprod_from (Fin 1) xs"

text \<open>\<open>expanding().max()\<close>: the largest finite value seen so far, missing before the
  first one.\<close>

fun expanding_max_from :: "fl \<Rightarrow> fl list \<Rightarrow> fl list" where
  "expanding_max_from acc [] = []"
| "expanding_max_from acc (x # xs) =
     (let a = (if \<not> isfinite x then acc
               else if isnan acc \<or> flt acc x then x else acc)
      in a # expanding_max_from a xs)"

definition expanding_max :: "fl list \<Rightarrow> fl list" where
  "expanding_max xs = expanding_max_from NaN xs"

text \<open>\<open>min()\<close> of a series: the least entry that is not missing, missing if there is
  none.\<close>

definition fmin_skipna :: "fl list \<Rightarrow> fl" where
  "fmin_skipna xs =
     foldl (\<lambda>acc x. if isnan x then acc else if isnan acc \<or> flt x acc then x else acc) NaN xs"

text \<open>\<open>fillna(method='ffill')\<close> copies the last value that is not missing forward;
  \<open>fillna(v)\<close> fills what is still missing.\<close>

fun ffill_from :: "fl \<Rightarrow> fl list \<Rightarrow> fl list" where
  "ffill_from prev [] = []"
| "ffill_from prev (x # xs) =
     (if isnan x then prev # ffill_from prev xs else x # ffill_from x xs)"

definition ffill :: "fl list \<Rightarrow> fl list" where
  "ffill xs = ffill_from NaN xs"

definition fillna :: "fl \<Rightarrow> fl list \<Rightarrow> fl list" where
  "fillna v xs = map (\<lambda>x. if isnan x then v else x) xs"

text \<open>\<open>np.percentile(a, p)\<close> with the default linear interpolation, on a series
  without missing entries: the entries are sorted and the value at the fractional
  position \<open>(n - 1) * p / 100\<close> is interpolated between its two neighbours.\<close>

fun insert_fl :: "fl \<Rightarrow> fl list \<Rightarrow> fl list" where
  "insert_fl x [] = [x]"
| "insert_fl x (y # ys) = (if flt y x then y # insert_fl x ys else x # y # ys)"

definition sort_fl :: "fl list \<Rightarrow> fl list" where
  "sort_fl xs = foldr insert_fl xs []"

definition percentile :: "fl list \<Rightarrow> real \<Rightarrow> fl" where
  "percentile xs p =
     (let s = sort_fl xs;
          n = length xs;
          pos = (real n - 1) * p / 100;
          lo = nat \<lfloor>pos\<rfloor>;
          hi = min (lo + 1) (n - 1)
      in fadd (s ! lo) (fmul (Fin (pos - real lo)) (fsub (s ! hi) (s ! lo))))"

text \<open>\<open>scipy.stats.skew\<close> and \<open>scipy.stats.kurtosis\<close> with their defaults: the
  biased third and fourth standardised moments, the latter minus \<open>3\<close>.  A zero
  second moment gives a missing value, as \<open>0 / 0\<close> does.\<close>

definition moment :: "nat \<Rightarrow> fl list \<Rightarrow> fl" where
  "moment k xs = mean (map (\<lambda>x. foldr fmul (replicate k (fsub x (mean xs))) (Fin 1)) xs)"

definition skew :: "fl list \<Rightarrow> fl" where
  "skew xs = fdiv (moment 3 xs) (fmul (moment 2 xs) (fsqrt (moment 2 xs)))"

definition kurtosis_excess :: "fl list \<Rightarrow> fl" where
  "kurtosis_excess xs = fsub (fdiv (moment 4 xs) (fmul (moment 2 xs) (moment 2 xs))) (Fin 3)"

text \<open>Python's \<open>round(x, 4)\<close> on a float: to the nearest multiple of \<open>0.0001\<close>, a
  tie going to the even one; NaN and the infinities round to themselves.\<close>

definition round_half_even :: "real \<Rightarrow> int" where
  "round_half_even x =
     (let f = \<lfloor>x\<rfloor>; d = x - of_int f
      in if d < 1 / 2 then f else if 1 / 2 < d then f + 1
         else if even f then f else f + 1)"

fun round4 :: "fl \<Rightarrow> fl" where
  "round4 (Fin x) = Fin (of_int (round_half_even (x * 10000)) / 10000)"
| "round4 v = v"

section \<open>TechnicalIndicators\<close>

text \<open>A price series is a list of finite prices, one per bar.\<close>

definition simple_moving_average :: "real list \<Rightarrow> int \<Rightarrow> error + fl list" where
  "simple_moving_average data window = rolling window mean (map Fin data)"

definition exponential_moving_average :: "real list \<Rightarrow> int \<Rightarrow> error + fl list" where
  "exponential_moving_average data window = ewm_mean window (map Fin data)"

record bands =
  upper :: "fl list"
  middle :: "fl list"
  lower :: "fl list"

definition bollinger_bands :: "real list \<Rightarrow> int \<Rightarrow> real \<Rightarrow> error + bands" where
  "bollinger_bands data window num_std =
     (case rolling window mean (map Fin data) of
        Inl e \<Rightarrow> Inl e
      | Inr ma \<Rightarrow>
     (case rolling window std (map Fin data) of
        Inl e \<Rightarrow> Inl e
      | Inr sd \<Rightarrow>
          Inr \<lparr> upper = map2 fadd ma (map (\<lambda>s. fmul s (Fin num_std)) sd),
                middle = ma,
                lower = map2 fsub ma (map (\<lambda>s. fmul s (Fin num_std)) sd) \<rparr>))"

text \<open>
  RSI.  \<open>delta.where(delta > 0, 0)\<close> keeps a value where the comparison is true and
  puts \<open>0\<close> elsewhere, also at the first bar, whose delta is missing.  The two
  trailing averages are named, so that statements about the RSI can refer to them.
\<close>

definition rsi_gain :: "real list \<Rightarrow> int \<Rightarrow> error + fl list" where
  "rsi_gain data window =
     rolling window mean
       (map (\<lambda>d. if fgt d (Fin 0) then d else Fin 0) (diff (map Fin data)))"

definition rsi_loss :: "real list \<Rightarrow> int \<Rightarrow> error + fl list" where
  "rsi_loss data window =
     rolling window mean
       (map fneg (map (\<lambda>d. if flt d (Fin 0) then d else Fin 0) (diff (map Fin data))))"

definition rsi :: "real list \<Rightarrow> int \<Rightarrow> error + fl list" where
  "rsi data window =
     (case rsi_gain data window of
        Inl e \<Rightarrow> Inl e
      | Inr gain \<Rightarrow>
     (case rsi_loss data window of
        Inl e \<Rightarrow> Inl e
      | Inr loss \<Rightarrow>
          Inr (map (\<lambda>rs. fsub (Fin 100) (fdiv (Fin 100) (fadd (Fin 1) rs)))
                   (map2 fdiv gain loss))))"

text \<open>
  The stochastic oscillator and the average true range take three price series of one
  table, so of one length.  \<open>max(axis=1)\<close> is the largest entry of a row that is not
  missing.
\<close>

fun fabs :: "fl \<Rightarrow> fl" where
  "fabs (Fin a) = Fin \<bar>a\<bar>"
| "fabs NaN = NaN"
| "fabs _ = PInf"

definition fmax_skipna :: "fl list \<Rightarrow> fl" where
  "fmax_skipna xs =
     foldl (\<lambda>acc x. if isnan x then acc else if isnan acc \<or> flt acc x then x else acc) NaN xs"

record stochastic =
  k_percent :: "fl list"
  d_percent :: "fl list"

definition stochastic_oscillator ::
    "real list \<Rightarrow> real list \<Rightarrow> real list \<Rightarrow> int \<Rightarrow> int \<Rightarrow> error + stochastic" where
  "stochastic_oscillator high low close k_window d_window =
     (case rolling k_window fmin_skipna (map Fin low) of
        Inl e \<Rightarrow> Inl e
      | Inr lowest_low \<Rightarrow>
     (case rolling k_window fmax_skipna (map Fin high) of
        Inl e \<Rightarrow> Inl e
      | Inr highest_high \<Rightarrow>
     (let k = map (fmul (Fin 100))
                (map2 fdiv (map2 fsub (map Fin close) lowest_low)
                           (map2 fsub highest_high lowest_low))
      in case rolling d_window mean k of
           Inl e \<Rightarrow> Inl e
         | Inr d \<Rightarrow> Inr \<lparr> k_percent = k, d_percent = d \<rparr>)))"

definition atr :: "real list \<Rightarrow> real list \<Rightarrow> real list \<Rightarrow> int \<Rightarrow> error + fl list" where
  "atr high low close window =
     (let tr1 = map2 fsub (map Fin high) (map Fin low);
          tr2 = map fabs (map2 fsub (map Fin high) (shift1 (map Fin close)));
          tr3 = map fabs (map2 fsub (map Fin low) (shift1 (map Fin close)));
          tr = map (\<lambda>(a, b, c). fmax_skipna [a, b, c]) (zip tr1 (zip tr2 tr3))
      in rolling window mean tr)"

section \<open>QuantitativeAnalysis\<close>

subsection \<open>Risk metrics\<close>

record risk =
  annual_return :: fl
  annual_volatility :: fl
  sharpe_ratio :: fl
  max_drawdown :: fl
  var_95 :: fl
  skewness :: fl
  kurtosis :: fl

definition risk_metrics :: "fl list \<Rightarrow> risk" where
  "risk_metrics rets =
     (let clean_returns = dropna rets
      in if length clean_returns = 0
         then \<lparr> annual_return = Fin 0, annual_volatility = Fin 0, sharpe_ratio = Fin 0,
                max_drawdown = Fin 0, var_95 = Fin 0, skewness = Fin 0, kurtosis = Fin 0 \<rparr>
         else
           (let ann_return = fmul (mean clean_returns) (Fin 252);
                ann_volatility = fmul (std clean_returns) (Fin (sqrt 252));
                sharpe = (if ann_volatility \<noteq> Fin 0 then fdiv ann_return ann_volatility
                          else Fin 0);
                cumulative = cumprod (map (fadd (Fin 1)) clean_returns);
                rolling_max = expanding_max cumulative;
                drawdown = map2 (\<lambda>c m. fdiv (fsub c m) m) cumulative rolling_max
            in \<lparr> annual_return = round4 ann_return,
                 annual_volatility = round4 ann_volatility,
                 sharpe_ratio = round4 sharpe,
                 max_drawdown = round4 (fmin_skipna drawdown),
                 var_95 = round4 (percentile clean_returns 5),
                 skewness = round4 (skew clean_returns),
                 kurtosis = round4 (kurtosis_excess clean_returns) \<rparr>))"

subsection \<open>Backtests\<close>

text \<open>The columns that the three backtests share; the moving-average and the RSI
  backtest add the columns of their indicators.\<close>

record signals =
  price :: "real list"
  signal :: "fl list"
  positions :: "fl list"
  returns :: "fl list"
  strategy_returns :: "fl list"
  cumulative_returns :: "fl list"
  cumulative_strategy_returns :: "fl list"

record ma_signals = signals +
  short_ma :: "fl list"
  long_ma :: "fl list"

record rsi_signals = signals +
  rsi_column :: "fl list"

text \<open>The signal column starts as \<open>0.0\<close> everywhere; from position \<open>short_window\<close>
  on it is overwritten with \<open>1.0\<close> where the short average is above the long one
  and \<open>0.0\<close> elsewhere (a comparison with a missing average is false).  The
  assignment to the slice \<open>[short_window:]\<close> is refused when the series has fewer
  than \<open>short_window\<close> bars: the slice is then taken to have a negative length,
  which is not the length of the values assigned, none.\<close>

definition ma_signal :: "nat \<Rightarrow> fl list \<Rightarrow> fl list \<Rightarrow> fl list" where
  "ma_signal short_window sma lma =
     map (\<lambda>t. if short_window \<le> t \<and> fgt (sma ! t) (lma ! t) then Fin 1 else Fin 0)
         [0..<length sma]"

definition backtest_simple_strategy :: "real list \<Rightarrow> int \<Rightarrow> int \<Rightarrow> error + ma_signals" where
  "backtest_simple_strategy data short_window long_window =
     (case rolling short_window mean (map Fin data) of
        Inl e \<Rightarrow> Inl e
      | Inr sma \<Rightarrow>
     (case rolling long_window mean (map Fin data) of
        Inl e \<Rightarrow> Inl e
      | Inr lma \<Rightarrow>
          (if int (length data) < short_window then Inl ValueError
           else
             (let sig = ma_signal (nat short_window) sma lma;
                  rets = pct_change (map Fin data);
                  strat = map2 fmul (shift1 sig) rets
              in Inr \<lparr> price = data, signal = sig, positions = diff sig, returns = rets,
                        strategy_returns = strat,
                        cumulative_returns = cumprod (map (fadd (Fin 1)) rets),
                        cumulative_strategy_returns = cumprod (map (fadd (Fin 1)) strat),
                        short_ma = sma, long_ma = lma \<rparr>))))"

definition rsi_signal :: "real \<Rightarrow> real \<Rightarrow> fl list \<Rightarrow> fl list" where
  "rsi_signal oversold overbought r =
     fillna (Fin 0)
       (ffill (map (\<lambda>v. if flt v (Fin oversold) then Fin 1
                        else if fgt v (Fin overbought) then Fin 0 else NaN) r))"

definition backtest_rsi_strategy ::
    "real list \<Rightarrow> int \<Rightarrow> real \<Rightarrow> real \<Rightarrow> error + rsi_signals" where
  "backtest_rsi_strategy data rsi_period oversold overbought =
     (case rsi data rsi_period of
        Inl e \<Rightarrow> Inl e
      | Inr r \<Rightarrow>
          (let sig = rsi_signal oversold overbought r;
               rets = pct_change (map Fin data);
               strat = map2 fmul (shift1 sig) rets
           in Inr \<lparr> price = data, signal = sig, positions = diff sig, returns = rets,
                     strategy_returns = strat,
                     cumulative_returns = cumprod (map (fadd (Fin 1)) rets),
                     cumulative_strategy_returns = cumprod (map (fadd (Fin 1)) strat),
                     rsi_column = r \<rparr>))"

text \<open>Buy and hold writes \<open>1.0\<close> into the first row of the positions column, which
  fails on a series without rows.\<close>

definition backtest_buy_and_hold :: "real list \<Rightarrow> error + signals" where
  "backtest_buy_and_hold data =
     (if data = [] then Inl IndexError
      else
        (let rets = pct_change (map Fin data)
         in Inr \<lparr> price = data,
                   signal = replicate (length data) (Fin 1),
                   positions = (replicate (length data) (Fin 0))[0 := Fin 1],
                   returns = rets,
                   strategy_returns = rets,
                   cumulative_returns = cumprod (map (fadd (Fin 1)) rets),
                   cumulative_strategy_returns = cumprod (map (fadd (Fin 1)) rets) \<rparr>))"

subsection \<open>Portfolio optimisation\<close>

text \<open>
  The table of returns is a list of named columns of equal length, with every entry
  present.  \<open>cov()\<close> is the sample covariance of each pair of columns, missing when
  there are fewer than two rows.
\<close>

definition covariance :: "real list \<Rightarrow> real list \<Rightarrow> fl" where
  "covariance xs ys =
     (if length xs < 2 then NaN
      else Fin ((\<Sum>(x, y)\<leftarrow>zip xs ys.
                   (x - sum_list xs / real (length xs)) * (y - sum_list ys / real (length ys)))
                / (real (length xs) - 1)))"

definition cov :: "real list list \<Rightarrow> fl list list" where
  "cov cols = map (\<lambda>xs. map (\<lambda>ys. covariance xs ys) cols) cols"

fun fin_vals :: "fl list \<Rightarrow> real list option" where
  "fin_vals [] = Some []"
| "fin_vals (Fin x # vs) = map_option ((#) x) (fin_vals vs)"
| "fin_vals (_ # vs) = None"

fun fin_rows :: "fl list list \<Rightarrow> real list list option" where
  "fin_rows [] = Some []"
| "fin_rows (r # rs) =
     (case fin_vals r of None \<Rightarrow> None | Some v \<Rightarrow> map_option ((#) v) (fin_rows rs))"

text \<open>
  \<open>np.linalg.pinv\<close> is a routine of NumPy and a parameter of the model: the
  statements about the optimizer hold for whatever matrix the routine returns.  The
  Moore-Penrose pseudoinverse, which the routine computes up to rounding, is the matrix
  that meets the four Penrose conditions \<open>is_pinv\<close>.  Matrices are lists of rows.
\<close>

definition ncols :: "real list list \<Rightarrow> nat" where
  "ncols B = (case B of [] \<Rightarrow> 0 | r # _ \<Rightarrow> length r)"

definition mat_mul :: "real list list \<Rightarrow> real list list \<Rightarrow> real list list" where
  "mat_mul A B =
     map (\<lambda>r. map (\<lambda>j. sum_list (map2 (*) r (map (\<lambda>b. b ! j) B))) [0..<ncols B]) A"

definition mat_transpose :: "real list list \<Rightarrow> real list list" where
  "mat_transpose A = map (\<lambda>j. map (\<lambda>r. r ! j) A) [0..<ncols A]"

definition is_pinv :: "real list list \<Rightarrow> real list list \<Rightarrow> bool" where
  "is_pinv A X \<longleftrightarrow>
     mat_mul (mat_mul A X) A = A \<and> mat_mul (mat_mul X A) X = X \<and>
     mat_transpose (mat_mul A X) = mat_mul A X \<and>
     mat_transpose (mat_mul X A) = mat_mul X A"

text \<open>\<open>dict(zip(keys, values))\<close>: the entries in the order of their keys' first
  occurrence; a later value for a key that is already there replaces the earlier one.\<close>

fun dict_set :: "'k \<Rightarrow> 'v \<Rightarrow> ('k \<times> 'v) list \<Rightarrow> ('k \<times> 'v) list" where
  "dict_set k v [] = [(k, v)]"
| "dict_set k v ((k', v') # d) =
     (if k' = k then (k, v) # d else (k', v') # dict_set k v d)"

definition dict_of :: "('k \<times> 'v) list \<Rightarrow> ('k \<times> 'v) list" where
  "dict_of kvs = foldl (\<lambda>d (k, v). dict_set k v d) [] kvs"

record portfolio =
  weights :: "(string \<times> fl) list"
  metrics :: risk
  portfolio_returns :: "fl list"

definition nrows :: "(string \<times> real list) list \<Rightarrow> nat" where
  "nrows returns_data = (case returns_data of [] \<Rightarrow> 0 | c # _ \<Rightarrow> length (snd c))"

text \<open>The part after the choice of the weights: the return of the portfolio in each row
  (a sum that leaves missing products out), and its risk metrics.\<close>

definition portfolio_result :: "(string \<times> real list) list \<Rightarrow> fl list \<Rightarrow> portfolio" where
  "portfolio_result returns_data ws =
     (let pr = map (\<lambda>t. fsum_skipna (map2 (\<lambda>c w. fmul (Fin (snd c ! t)) w) returns_data ws))
                   [0..<nrows returns_data]
      in \<lparr> weights = dict_of (zip (map fst returns_data) ws),
           metrics = risk_metrics pr,
           portfolio_returns = pr \<rparr>)"

definition equal_weights :: "(string \<times> real list) list \<Rightarrow> fl list" where
  "equal_weights returns_data =
     replicate (length returns_data) (Fin (1 / real (length returns_data)))"

definition risk_parity_weights :: "(string \<times> real list) list \<Rightarrow> fl list" where
  "risk_parity_weights returns_data =
     (let volatilities = map (\<lambda>c. std (map Fin (snd c))) returns_data;
          inv_vol = map (fdiv (Fin 1)) volatilities
      in map (\<lambda>v. fdiv v (fsum_skipna inv_vol)) inv_vol)"

definition min_variance_weights :: "real list list \<Rightarrow> fl list" where
  "min_variance_weights inv_cov =
     (let w = map (\<lambda>row. Fin (sum_list row)) inv_cov
      in map (\<lambda>x. fdiv x (fsum w)) w)"

definition portfolio_optimization ::
    "(real list list \<Rightarrow> real list list) \<Rightarrow> (string \<times> real list) list \<Rightarrow> string
       \<Rightarrow> error + portfolio" where
  "portfolio_optimization pinv returns_data method =
     (if method = ''equal_weight'' then
        (if length returns_data = 0 then Inl ZeroDivisionError
         else Inr (portfolio_result returns_data (equal_weights returns_data)))
      else if method = ''risk_parity'' then
        Inr (portfolio_result returns_data (risk_parity_weights returns_data))
      else if method = ''minimum_variance'' then
        (case fin_rows (cov (map snd returns_data)) of
           None \<Rightarrow> Inl LinAlgError
         | Some cov_matrix \<Rightarrow>
             Inr (portfolio_result returns_data (min_variance_weights (pinv cov_matrix))))
      else Inl ValueError)"

section \<open>The exponential average as the specification words it\<close>

text \<open>
  Two definitions that follow the words of the specification rather than the code:
  the normalised weighted sum of \<open>x[0..t]\<close> with weights \<open>(1 - \<alpha>)^(t - i)\<close>, and
  the plain recurrence \<open>ema[t] = \<alpha> x[t] + (1 - \<alpha>) ema[t - 1]\<close> seeded with the
  first raw value.
\<close>

definition ema_weighted :: "real \<Rightarrow> real list \<Rightarrow> nat \<Rightarrow> real" where
  "ema_weighted alpha x t =
     (\<Sum>i\<le>t. (1 - alpha) ^ (t - i) * x ! i) / (\<Sum>i\<le>t. (1 - alpha) ^ (t - i))"

fun ema_seeded_from :: "real \<Rightarrow> real \<Rightarrow> real list \<Rightarrow> real list" where
  "ema_seeded_from alpha prev [] = []"
| "ema_seeded_from alpha prev (x # xs) =
     (alpha * x + (1 - alpha) * prev) # ema_seeded_from alpha (alpha * x + (1 - alpha) * prev) xs"

definition ema_seeded :: "real \<Rightarrow> real list \<Rightarrow> real list" where
  "ema_seeded alpha xs = (case xs of [] \<Rightarrow> [] | x # rest \<Rightarrow> x # ema_seeded_from alpha x rest)"

section \<open>Auxiliary notions of the proofs\<close>

text \<open>A finite value that is not negative, and the RSI of one bar as a function of the
  two trailing averages of that bar.\<close>

fun fnonneg :: "fl \<Rightarrow> bool" where
  "fnonneg (Fin v) = (0 \<le> v)"
| "fnonneg _ = False"

definition rsi_value :: "fl \<Rightarrow> fl \<Rightarrow> fl" where
  "rsi_value g l = fsub (Fin 100) (fdiv (Fin 100) (fadd (Fin 1) (fdiv g l)))"

text \<open>A value on the grid of four decimal places: a whole multiple of \<open>0.0001\<close>,
  or a value that is not finite.\<close>

fun on_grid4 :: "fl \<Rightarrow> bool" where
  "on_grid4 (Fin x) = (x * 10000 = of_int \<lfloor>x * 10000\<rfloor>)"
| "on_grid4 _ = True"

text \<open>
  The examples with two assets need the value of \<open>np.linalg.pinv\<close> at two kinds of
  covariance matrix, where the result of the routine does not hang on its rounding: at
  a regular matrix it is the inverse, up to rounding, and at a singular diagonal matrix
  (one asset, or both, with constant returns) it is exactly the diagonal matrix of the
  inverses of the entries that are not \<open>0\<close>.  At any other singular matrix the
  routine returns the pseudoinverse of a matrix that rounding has moved, and
  \<open>pinv_example\<close> is left unspecified there.
\<close>

definition pinv_example :: "real list list \<Rightarrow> real list list" where
  "pinv_example A =
     (case A of
        [[a, b], [c, d]] \<Rightarrow>
          (if a * d - b * c \<noteq> 0
           then [[d / (a * d - b * c), - b / (a * d - b * c)],
                 [- c / (a * d - b * c), a / (a * d - b * c)]]
           else if b = 0 \<and> c = 0
           then [[if a = 0 then 0 else 1 / a, 0], [0, if d = 0 then 0 else 1 / d]]
           else undefined)
      | _ \<Rightarrow> undefined)"

text \<open>A finite value that is positive.\<close>

fun fpos :: "fl \<Rightarrow> bool" where
  "fpos (Fin v) = (0 < v)"
| "fpos _ = False"

section \<open>Facts about the series operations\<close>

lemma fnonneg_iff: "fnonneg x \<longleftrightarrow> (\<exists>v. x = Fin v \<and> 0 \<le> v)"
  by (cases x) simp_all

lemma foldl_fadd_Fin: "foldl fadd (Fin a) (map Fin vs) = Fin (a + sum_list vs)"
  by (induction vs arbitrary: a) (simp_all add: add.assoc)

lemma fsum_Fin: "fsum (map Fin vs) = Fin (sum_list vs)"
  by (simp add: fsum_def foldl_fadd_Fin)

lemma mean_Fin: "vs \<noteq> [] \<Longrightarrow> mean (map Fin vs) = Fin (sum_list vs / real (length vs))"
  by (simp add: mean_def fsum_Fin)

lemma list_all_isfinite_map_Fin: "list_all isfinite (map Fin vs)"
  by (induction vs) simp_all

lemma isfinite_ex: "isfinite x \<Longrightarrow> \<exists>v. x = Fin v"
  by (cases x) simp_all

lemma list_all_isfinite_ex: "list_all isfinite xs \<Longrightarrow> \<exists>vs. xs = map Fin vs"
proof (induction xs)
  case Nil
  then show ?case by simp
next
  case (Cons x xs)
  from Cons.prems have "isfinite x" "list_all isfinite xs" by simp_all
  with Cons.IH isfinite_ex obtain v vs where "x = Fin v" "xs = map Fin vs"
    by blast
  then have "x # xs = map Fin (v # vs)" by simp
  then show ?case by (rule exI)
qed

lemma rolling_nat_length: "length (rolling_nat w agg xs) = length xs"
  by (simp add: rolling_nat_def)

lemma rolling_nat_nth:
  "t < length xs \<Longrightarrow>
   rolling_nat w agg xs ! t =
     (if w = 0 \<or> Suc t < w then NaN
      else if list_all isfinite (take w (drop (Suc t - w) xs))
           then agg (take w (drop (Suc t - w) xs)) else NaN)"
  by (simp add: rolling_nat_def)

lemma rolling_nat_short:
  assumes "length xs < w"
  shows "rolling_nat w agg xs = replicate (length xs) NaN"
proof (rule nth_equalityI)
  show "length (rolling_nat w agg xs) = length (replicate (length xs) NaN)"
    by (simp add: rolling_nat_length)
next
  fix t assume "t < length (rolling_nat w agg xs)"
  then have t: "t < length xs" by (simp add: rolling_nat_length)
  with assms have "Suc t < w" by simp
  with t show "rolling_nat w agg xs ! t = replicate (length xs) NaN ! t"
    by (simp add: rolling_nat_nth)
qed

lemma rolling_nat_one_mean: "rolling_nat 1 mean (map Fin data) = map Fin data"
proof (rule nth_equalityI)
  show "length (rolling_nat 1 mean (map Fin data)) = length (map Fin data)"
    by (simp add: rolling_nat_length)
next
  fix t assume "t < length (rolling_nat 1 mean (map Fin data))"
  then have t: "t < length data" by (simp add: rolling_nat_length)
  then have w: "take 1 (drop t (map Fin data)) = map Fin [data ! t]"
    by (simp add: take_Suc_conv_app_nth drop_map hd_drop_conv_nth take_Suc)
  have "mean (map Fin [data ! t]) = Fin (data ! t)"
    by (subst mean_Fin) simp_all
  with t w show "rolling_nat 1 mean (map Fin data) ! t = map Fin data ! t"
    by (simp add: rolling_nat_nth)
qed

text \<open>
  Claim C9.  The simple moving average with window \<open>1\<close> raises no error and returns
  the input series itself: at every bar the value is the price of that bar.
\<close>

theorem sma_window_one_identity:
  "simple_moving_average data 1 = Inr (map Fin data)"
  using rolling_nat_one_mean [of data]
  by (simp add: simple_moving_average_def rolling_def)

lemma shift1_length: "length (shift1 xs) = length xs"
  by (simp add: shift1_def)

lemma diff_length: "length (diff xs) = length xs"
  by (simp add: diff_def shift1_length)


section \<open>The relative strength index\<close>

lemma shift1_nth:
  "t < length xs \<Longrightarrow> shift1 xs ! t = (if t = 0 then NaN else xs ! (t - 1))"
  by (cases t) (simp_all add: shift1_def)

lemma diff_nth:
  "t < length xs \<Longrightarrow> diff xs ! t = fsub (xs ! t) (if t = 0 then NaN else xs ! (t - 1))"
  by (simp add: diff_def shift1_length shift1_nth)

lemma diff_Fin_nth:
  "t < length data \<Longrightarrow>
   diff (map Fin data) ! t = (if t = 0 then NaN else Fin (data ! t - data ! (t - 1)))"
  by (simp add: diff_nth fsub_def)

lemma gain_input_nonneg:
  "x \<in> set (map (\<lambda>d. if fgt d (Fin 0) then d else Fin 0) (diff (map Fin data))) \<Longrightarrow> fnonneg x"
  by (auto simp: fnonneg_iff in_set_conv_nth diff_length diff_Fin_nth fgt_def split: if_splits)

lemma loss_input_nonneg:
  "x \<in> set (map fneg (map (\<lambda>d. if flt d (Fin 0) then d else Fin 0) (diff (map Fin data))))
   \<Longrightarrow> fnonneg x"
  by (auto simp: fnonneg_iff in_set_conv_nth diff_length diff_Fin_nth split: if_splits)

lemma mean_nonneg:
  assumes "\<forall>x\<in>set ws. fnonneg x" "ws \<noteq> []"
  shows "fnonneg (mean ws)"
proof -
  from assms(1) have "list_all isfinite ws"
    by (auto simp: list_all_iff fnonneg_iff)
  then obtain vs where vs: "ws = map Fin vs"
    using list_all_isfinite_ex by blast
  with assms(1) have "\<forall>v\<in>set vs. 0 \<le> v" by (auto simp: fnonneg_iff)
  then have "0 \<le> sum_list vs" by (simp add: sum_list_nonneg)
  moreover from vs assms(2) have "vs \<noteq> []" by auto
  ultimately show ?thesis
    using vs by (simp add: mean_Fin fnonneg_iff)
qed

lemma rolling_mean_nonneg:
  assumes "\<forall>x\<in>set xs. fnonneg x" "t < length xs"
  shows "rolling_nat w mean xs ! t = NaN \<or> fnonneg (rolling_nat w mean xs ! t)"
proof (cases "w = 0 \<or> Suc t < w")
  case True
  with assms(2) show ?thesis by (simp add: rolling_nat_nth)
next
  case False
  let ?ws = "take w (drop (Suc t - w) xs)"
  from False assms(2) have "?ws \<noteq> []" by auto
  moreover have "\<forall>x\<in>set ?ws. fnonneg x"
    using assms(1) by (meson in_set_dropD in_set_takeD)
  ultimately have "fnonneg (mean ?ws)" by (rule mean_nonneg[rotated])
  with assms(2) show ?thesis by (simp add: rolling_nat_nth)
qed

lemma rsi_value_cases:
  assumes "g = NaN \<or> fnonneg g" "l = NaN \<or> fnonneg l"
  shows "(rsi_value g l = NaN \<or> (\<exists>v. rsi_value g l = Fin v \<and> 0 \<le> v \<and> v \<le> 100)) \<and>
         (rsi_value g l = Fin 100 \<longleftrightarrow> (\<exists>gv. g = Fin gv \<and> 0 < gv) \<and> l = Fin 0) \<and>
         (g = Fin 0 \<and> l = Fin 0 \<longrightarrow> rsi_value g l = NaN)"
proof -
  consider "g = NaN" | "l = NaN" | a b where "g = Fin a" "l = Fin b" "0 \<le> a" "0 \<le> b"
    using assms by (auto simp: fnonneg_iff)
  then show ?thesis
  proof cases
    case 1
    then show ?thesis by (simp add: rsi_value_def fsub_def)
  next
    case 2
    then show ?thesis by (cases g) (simp_all add: rsi_value_def fsub_def)
  next
    case 3
    show ?thesis
    proof (cases "b = 0")
      case True
      with 3 show ?thesis by (auto simp: rsi_value_def fsub_def)
    next
      case False
      with 3 have b: "0 < b" by simp
      with 3 have q: "0 \<le> a / b" by simp
      then have pos: "0 < 1 + a / b" by linarith
      then have "0 < 100 / (1 + a / b)" by simp
      moreover have "100 / (1 + a / b) \<le> 100"
        using 3(3) b pos by (simp add: field_simps)
      ultimately show ?thesis
        using 3 False pos by (simp add: rsi_value_def fsub_def)
    qed
  qed
qed

text \<open>
  Claim C5.  At every bar the RSI is either missing or a number between \<open>0\<close> and
  \<open>100\<close>.  It is \<open>100\<close> exactly when the trailing average loss is \<open>0\<close> and
  the trailing average gain is positive (the ratio is then infinite, and no error is
  raised), and it is missing when both trailing averages are \<open>0\<close>.
\<close>

theorem rsi_range_and_limits:
  assumes "rsi data window = Inr r" and "rsi_gain data window = Inr g"
    and "rsi_loss data window = Inr l" and "t < length data"
  shows "(r ! t = NaN \<or> (\<exists>v. r ! t = Fin v \<and> 0 \<le> v \<and> v \<le> 100)) \<and>
         (r ! t = Fin 100 \<longleftrightarrow> (\<exists>gv. g ! t = Fin gv \<and> 0 < gv) \<and> l ! t = Fin 0) \<and>
         (g ! t = Fin 0 \<and> l ! t = Fin 0 \<longrightarrow> r ! t = NaN)"
proof -
  let ?gi = "map (\<lambda>d. if fgt d (Fin 0) then d else Fin 0) (diff (map Fin data))"
  let ?li = "map fneg (map (\<lambda>d. if flt d (Fin 0) then d else Fin 0) (diff (map Fin data)))"
  from assms(2) have w: "\<not> window < 0" and g: "g = rolling_nat (nat window) mean ?gi"
    by (auto simp: rsi_gain_def rolling_def split: if_splits)
  from assms(3) have l: "l = rolling_nat (nat window) mean ?li"
    by (auto simp: rsi_loss_def rolling_def split: if_splits)
  have len: "length g = length data" "length l = length data"
    by (simp_all add: g l rolling_nat_length diff_length)
  from assms(1,2,3) have "r = map (\<lambda>rs. fsub (Fin 100) (fdiv (Fin 100) (fadd (Fin 1) rs)))
                   (map2 fdiv g l)"
    by (simp add: rsi_def)
  with len assms(4) have r: "r ! t = rsi_value (g ! t) (l ! t)"
    by (simp add: rsi_value_def)
  have "g ! t = NaN \<or> fnonneg (g ! t)"
    unfolding g using gain_input_nonneg assms(4)
    by (intro rolling_mean_nonneg) (auto simp: diff_length)
  moreover have "l ! t = NaN \<or> fnonneg (l ! t)"
    unfolding l using loss_input_nonneg assms(4)
    by (intro rolling_mean_nonneg) (auto simp: diff_length)
  ultimately show ?thesis
    unfolding r by (rule rsi_value_cases)
qed

theorem rsi_range_and_limits_witness:
  "rsi [5, 5, 5] 2 = Inr [NaN, NaN, NaN] \<and>
   rsi [1, 2, 3] 2 = Inr [NaN, Fin 100, Fin 100] \<and>
   rsi_gain [1, 2, 3] 2 = Inr [NaN, Fin (1 / 2), Fin 1] \<and>
   rsi_loss [1, 2, 3] 2 = Inr [NaN, Fin 0, Fin 0] \<and> (1::nat) < length [1, 2, 3 :: real] \<and>
   ([NaN, Fin 100, Fin 100] ! 1 = Fin 100 \<longleftrightarrow>
      (\<exists>gv. [NaN, Fin (1 / 2), Fin 1] ! 1 = Fin gv \<and> 0 < gv) \<and> [NaN, Fin 0, Fin 0] ! 1 = Fin 0)"
proof -
  have g: "rsi_gain [1, 2, 3] 2 = Inr [NaN, Fin (1 / 2), Fin 1]"
    by (simp add: rsi_gain_def rolling_def rolling_nat_def diff_def shift1_def fsub_def
        fgt_def mean_def fsum_def numeral_2_eq_2 numeral_3_eq_3)
  have l: "rsi_loss [1, 2, 3] 2 = Inr [NaN, Fin 0, Fin 0]"
    by (simp add: rsi_loss_def rolling_def rolling_nat_def diff_def shift1_def fsub_def
        mean_def fsum_def numeral_2_eq_2 numeral_3_eq_3)
  have r: "rsi [1, 2, 3] 2 = Inr [NaN, Fin 100, Fin 100]"
    by (simp add: rsi_def g l fsub_def)
  have t: "(1::nat) < length [1, 2, 3 :: real]" by simp
  have g0: "rsi_gain [5, 5, 5] 2 = Inr [NaN, Fin 0, Fin 0]"
    by (simp add: rsi_gain_def rolling_def rolling_nat_def diff_def shift1_def fsub_def
        fgt_def mean_def fsum_def numeral_2_eq_2 numeral_3_eq_3)
  have l0: "rsi_loss [5, 5, 5] 2 = Inr [NaN, Fin 0, Fin 0]"
    by (simp add: rsi_loss_def rolling_def rolling_nat_def diff_def shift1_def fsub_def
        mean_def fsum_def numeral_2_eq_2 numeral_3_eq_3)
  have r0: "rsi [5, 5, 5] 2 = Inr [NaN, NaN, NaN]"
    by (simp add: rsi_def g0 l0 fsub_def)
  have t0: "(1::nat) < length [5, 5, 5 :: real]" by simp
  from rsi_range_and_limits [OF r0 g0 l0 t0] rsi_range_and_limits [OF r g l t] g l r t r0
  show ?thesis by simp
qed

section \<open>Risk metrics\<close>

lemma fl_NaN_right:
  "fadd a NaN = NaN" "fmul a NaN = NaN" "fdiv a NaN = NaN" "fsub a NaN = NaN"
  by (cases a; simp add: fsub_def)+

lemma on_grid4_round4: "on_grid4 (round4 v)"
  by (cases v) simp_all

lemma risk_metrics_empty:
  "dropna rets = [] \<Longrightarrow>
   risk_metrics rets =
     \<lparr> annual_return = Fin 0, annual_volatility = Fin 0, sharpe_ratio = Fin 0,
       max_drawdown = Fin 0, var_95 = Fin 0, skewness = Fin 0, kurtosis = Fin 0 \<rparr>"
  by (simp add: risk_metrics_def)

lemma risk_metrics_annual_return:
  "dropna rets \<noteq> [] \<Longrightarrow>
   annual_return (risk_metrics rets) = round4 (fmul (mean (dropna rets)) (Fin 252))"
  by (simp add: risk_metrics_def Let_def)

lemma risk_metrics_annual_volatility:
  "dropna rets \<noteq> [] \<Longrightarrow>
   annual_volatility (risk_metrics rets) = round4 (fmul (std (dropna rets)) (Fin (sqrt 252)))"
  by (simp add: risk_metrics_def Let_def)

lemma risk_metrics_sharpe_ratio:
  "dropna rets \<noteq> [] \<Longrightarrow>
   sharpe_ratio (risk_metrics rets) =
     round4 (if fmul (std (dropna rets)) (Fin (sqrt 252)) \<noteq> Fin 0
             then fdiv (fmul (mean (dropna rets)) (Fin 252))
                       (fmul (std (dropna rets)) (Fin (sqrt 252)))
             else Fin 0)"
  by (simp add: risk_metrics_def Let_def)

text \<open>
  Claim C4, as amended.  \<open>risk_metrics\<close> itself rounds: each of the seven values it
  returns is a whole multiple of \<open>0.0001\<close>, or is missing or infinite.
\<close>

theorem risk_metrics_rounds_inside:
  "on_grid4 (annual_return (risk_metrics rets)) \<and>
   on_grid4 (annual_volatility (risk_metrics rets)) \<and>
   on_grid4 (sharpe_ratio (risk_metrics rets)) \<and>
   on_grid4 (max_drawdown (risk_metrics rets)) \<and>
   on_grid4 (var_95 (risk_metrics rets)) \<and>
   on_grid4 (skewness (risk_metrics rets)) \<and>
   on_grid4 (kurtosis (risk_metrics rets))"
proof (cases "dropna rets = []")
  case True
  then show ?thesis by (simp add: risk_metrics_empty)
next
  case False
  then show ?thesis by (simp add: risk_metrics_def Let_def on_grid4_round4)
qed

text \<open>
  Claim C4 as stated fails: for the returns \<open>[NaN, 0.00001, 0.00002]\<close> the exact
  annual return, the mean times \<open>252\<close>, is \<open>0.00378\<close>, and \<open>risk_metrics\<close>
  returns \<open>0.0038\<close>.
\<close>

theorem risk_metrics_unrounded_counterexample:
  "annual_return (risk_metrics [NaN, Fin (1 / 100000), Fin (2 / 100000)]) = Fin (38 / 10000) \<and>
   fmul (mean (dropna [NaN, Fin (1 / 100000), Fin (2 / 100000)])) (Fin 252) = Fin (378 / 100000) \<and>
   annual_return (risk_metrics [NaN, Fin (1 / 100000), Fin (2 / 100000)]) \<noteq>
     fmul (mean (dropna [NaN, Fin (1 / 100000), Fin (2 / 100000)])) (Fin 252)"
proof -
  have d: "dropna [NaN, Fin (1 / 100000), Fin (2 / 100000)] = [Fin (1 / 100000), Fin (2 / 100000)]"
    by (simp add: dropna_def)
  have m: "fmul (mean [Fin (1 / 100000), Fin (2 / 100000)]) (Fin 252) = Fin (378 / 100000)"
    by (simp add: mean_def fsum_def)
  have "round4 (Fin (378 / 100000)) = Fin (38 / 10000)"
    by (simp add: round_half_even_def Let_def)
  with d m show ?thesis by (simp add: risk_metrics_annual_return)
qed

text \<open>
  Claim C10.  When exactly one entry of the return series is not missing, the annual
  return is defined (it is that entry times \<open>252\<close>, rounded), the annual volatility
  and the Sharpe ratio are NaN, and the result is not the all-zero record, which is
  returned when no entry is left.
\<close>

theorem single_observation_metrics:
  assumes "dropna rets = [x]"
  shows "annual_return (risk_metrics rets) = round4 (fmul x (Fin 252)) \<and>
         \<not> isnan (annual_return (risk_metrics rets)) \<and>
         annual_volatility (risk_metrics rets) = NaN \<and>
         sharpe_ratio (risk_metrics rets) = NaN \<and>
         risk_metrics rets \<noteq> risk_metrics []"
proof -
  have "x \<in> set (dropna rets)" using assms by simp
  then have x: "\<not> isnan x" by (simp add: dropna_def)
  then have m: "mean [x] = x" by (cases x) (simp_all add: mean_def fsum_def)
  have s: "std [x] = NaN" by (simp add: std_def)
  from x have "\<not> isnan (round4 (fmul x (Fin 252)))" by (cases x) simp_all
  with assms m s have main:
    "annual_return (risk_metrics rets) = round4 (fmul x (Fin 252)) \<and>
     \<not> isnan (annual_return (risk_metrics rets)) \<and>
     annual_volatility (risk_metrics rets) = NaN \<and>
     sharpe_ratio (risk_metrics rets) = NaN"
    by (simp add: risk_metrics_annual_return risk_metrics_annual_volatility
        risk_metrics_sharpe_ratio fl_NaN_right)
  have "annual_volatility (risk_metrics []) = Fin 0"
    by (simp add: risk_metrics_empty dropna_def)
  with main have "risk_metrics rets \<noteq> risk_metrics []" by auto
  with main show ?thesis by blast
qed

theorem single_observation_metrics_witness:
  "dropna [NaN, Fin (1 / 100)] = [Fin (1 / 100)] \<and>
   annual_return (risk_metrics [NaN, Fin (1 / 100)]) = Fin (252 / 100) \<and>
   annual_volatility (risk_metrics [NaN, Fin (1 / 100)]) = NaN \<and>
   sharpe_ratio (risk_metrics [NaN, Fin (1 / 100)]) = NaN \<and>
   risk_metrics [] =
     \<lparr> annual_return = Fin 0, annual_volatility = Fin 0, sharpe_ratio = Fin 0,
       max_drawdown = Fin 0, var_95 = Fin 0, skewness = Fin 0, kurtosis = Fin 0 \<rparr>"
proof -
  have e: "risk_metrics [] =
     \<lparr> annual_return = Fin 0, annual_volatility = Fin 0, sharpe_ratio = Fin 0,
       max_drawdown = Fin 0, var_95 = Fin 0, skewness = Fin 0, kurtosis = Fin 0 \<rparr>"
    by (simp add: risk_metrics_empty dropna_def)
  have d: "dropna [NaN, Fin (1 / 100)] = [Fin (1 / 100)]" by (simp add: dropna_def)
  have "round4 (fmul (Fin (1 / 100)) (Fin 252)) = Fin (252 / 100)"
    by (simp add: round_half_even_def Let_def)
  with single_observation_metrics [OF d] d e show ?thesis by simp
qed

section \<open>Backtests: the one-bar lag\<close>

lemma fmul_one_left: "fmul (Fin 1) x = x"
  by (cases x) simp_all

lemma pct_change_length: "length (pct_change xs) = length xs"
  by (simp add: pct_change_def shift1_length)

lemma pct_change_nth:
  "t < length xs \<Longrightarrow>
   pct_change xs ! t = fsub (fdiv (xs ! t) (if t = 0 then NaN else xs ! (t - 1))) (Fin 1)"
  by (simp add: pct_change_def shift1_length shift1_nth)

lemma pct_change_Fin_nth:
  "t < length data \<Longrightarrow>
   pct_change (map Fin data) ! t =
     (if t = 0 then NaN else fsub (fdiv (Fin (data ! t)) (Fin (data ! (t - 1)))) (Fin 1))"
  by (simp add: pct_change_nth fsub_def)

lemma lagged_product_nth:
  "t < length sig \<Longrightarrow> length rets = length sig \<Longrightarrow>
   map2 fmul (shift1 sig) rets ! t = (if t = 0 then NaN else fmul (sig ! (t - 1)) (rets ! t))"
  by (simp add: shift1_length shift1_nth)

text \<open>Series operations commute with cutting the series after a bar.\<close>

lemma take_shift1: "take n (shift1 xs) = shift1 (take n xs)"
proof (rule nth_equalityI)
  show "length (take n (shift1 xs)) = length (shift1 (take n xs))"
    by (simp add: shift1_length)
next
  fix t assume "t < length (take n (shift1 xs))"
  then have "t < n" "t < length xs" by (simp_all add: shift1_length)
  then show "take n (shift1 xs) ! t = shift1 (take n xs) ! t"
    by (simp add: shift1_nth)
qed

lemma take_map2: "take n (map2 f xs ys) = map2 f (take n xs) (take n ys)"
  by (simp add: take_map take_zip)

lemma take_diff: "take n (diff xs) = diff (take n xs)"
  by (simp add: diff_def take_map2 take_shift1)

lemma take_pct_change: "take n (pct_change xs) = pct_change (take n xs)"
  by (simp add: pct_change_def take_map2 take_shift1)

lemma window_of_prefix:
  assumes "t < n" "w \<le> Suc t"
  shows "take w (drop (Suc t - w) (take n xs)) = take w (drop (Suc t - w) xs)"
proof -
  have "drop (Suc t - w) (take n xs) = take (n - (Suc t - w)) (drop (Suc t - w) xs)"
    by (simp add: drop_take)
  moreover from assms have "w \<le> n - (Suc t - w)" by simp
  ultimately show ?thesis by (simp add: min_def)
qed

lemma take_rolling_nat: "take n (rolling_nat w agg xs) = rolling_nat w agg (take n xs)"
proof (rule nth_equalityI)
  show "length (take n (rolling_nat w agg xs)) = length (rolling_nat w agg (take n xs))"
    by (simp add: rolling_nat_length)
next
  fix t assume "t < length (take n (rolling_nat w agg xs))"
  then have t: "t < n" "t < length xs" by (simp_all add: rolling_nat_length)
  show "take n (rolling_nat w agg xs) ! t = rolling_nat w agg (take n xs) ! t"
  proof (cases "w = 0 \<or> Suc t < w")
    case True
    with t show ?thesis by (simp add: rolling_nat_nth)
  next
    case False
    then have "w \<le> Suc t" by simp
    with t False show ?thesis
      by (simp add: rolling_nat_nth window_of_prefix)
  qed
qed

lemma take_ffill_from: "take n (ffill_from prev xs) = ffill_from prev (take n xs)"
proof (induction xs arbitrary: n prev)
  case Nil
  then show ?case by simp
next
  case (Cons x xs)
  then show ?case by (cases n) simp_all
qed

lemma take_rsi_signal: "take n (rsi_signal os ob r) = rsi_signal os ob (take n r)"
  by (simp add: rsi_signal_def fillna_def ffill_def take_map take_ffill_from)

lemma ma_signal_length: "length (ma_signal k sma lma) = length sma"
  by (simp add: ma_signal_def)

lemma take_ma_signal:
  assumes "length lma = length sma"
  shows "take n (ma_signal k sma lma) = ma_signal k (take n sma) (take n lma)"
proof (rule nth_equalityI)
  show "length (take n (ma_signal k sma lma)) = length (ma_signal k (take n sma) (take n lma))"
    by (simp add: ma_signal_length)
next
  fix t assume "t < length (take n (ma_signal k sma lma))"
  then have "t < n" "t < length sma" by (simp_all add: ma_signal_length)
  then show "take n (ma_signal k sma lma) ! t = ma_signal k (take n sma) (take n lma) ! t"
    by (simp add: ma_signal_def)
qed


lemma nth_of_equal_prefix:
  assumes "take (Suc t) xs = take (Suc t) ys"
  shows "xs ! t = ys ! t"
proof -
  have "xs ! t = take (Suc t) xs ! t" by simp
  also have "\<dots> = take (Suc t) ys ! t" by (simp only: assms)
  also have "\<dots> = ys ! t" by simp
  finally show ?thesis .
qed

lemma rolling_prefix:
  "rolling w agg xs = Inr ys \<Longrightarrow> rolling w agg (take n xs) = Inr (take n ys)"
  by (auto simp: rolling_def take_rolling_nat split: if_splits)

lemma rolling_length: "rolling w agg xs = Inr ys \<Longrightarrow> length ys = length xs"
  by (auto simp: rolling_def rolling_nat_length split: if_splits)

lemma rsi_prefix:
  assumes "rsi data p = Inr rv"
  shows "rsi (take n data) p = Inr (take n rv)"
proof -
  from assms obtain g l where g: "rsi_gain data p = Inr g" and l: "rsi_loss data p = Inr l"
    and rv: "rv = map (\<lambda>rs. fsub (Fin 100) (fdiv (Fin 100) (fadd (Fin 1) rs))) (map2 fdiv g l)"
    by (auto simp: rsi_def split: sum.splits)
  from g have "rsi_gain (take n data) p = Inr (take n g)"
    unfolding rsi_gain_def
    by (simp add: rolling_prefix take_map [symmetric] take_diff [symmetric])
  moreover from l have "rsi_loss (take n data) p = Inr (take n l)"
    unfolding rsi_loss_def
    by (simp add: rolling_prefix take_map [symmetric] take_diff [symmetric])
  ultimately show ?thesis
    by (simp add: rsi_def rv take_map take_zip)
qed

lemma rsi_length:
  assumes "rsi data p = Inr rv"
  shows "length rv = length data"
proof -
  from assms obtain g l where g: "rsi_gain data p = Inr g" and l: "rsi_loss data p = Inr l"
    and rv: "rv = map (\<lambda>rs. fsub (Fin 100) (fdiv (Fin 100) (fadd (Fin 1) rs))) (map2 fdiv g l)"
    by (auto simp: rsi_def split: sum.splits)
  from g l have "length g = length data" "length l = length data"
    by (auto simp: rsi_gain_def rsi_loss_def diff_length dest!: rolling_length)
  with rv show ?thesis by simp
qed

lemma rsi_signal_length: "length (rsi_signal os ob r) = length r"
proof -
  have "length (ffill_from prev xs) = length xs" for prev xs
    by (induction xs arbitrary: prev) simp_all
  then show ?thesis by (simp add: rsi_signal_def fillna_def ffill_def)
qed

text \<open>The columns of each backtest.\<close>

lemma ma_columns:
  assumes "backtest_simple_strategy data sw lw = Inr m"
  shows "length (signal m) = length data"
    and "positions m = diff (signal m)"
    and "returns m = pct_change (map Fin data)"
    and "strategy_returns m = map2 fmul (shift1 (signal m)) (returns m)"
    and "signal m = ma_signal (nat sw) (rolling_nat (nat sw) mean (map Fin data))
                      (rolling_nat (nat lw) mean (map Fin data))"
  using assms
  by (auto simp: backtest_simple_strategy_def Let_def ma_signal_length rolling_def
        rolling_nat_length split: sum.splits if_splits)

lemma rsi_columns:
  assumes "backtest_rsi_strategy data p os ob = Inr r"
  shows "length (signal r) = length data"
    and "positions r = diff (signal r)"
    and "returns r = pct_change (map Fin data)"
    and "strategy_returns r = map2 fmul (shift1 (signal r)) (returns r)"
  using assms
  by (auto simp: backtest_rsi_strategy_def Let_def rsi_signal_length
           split: sum.splits dest!: rsi_length)

lemma hold_columns:
  assumes "backtest_buy_and_hold data = Inr b"
  shows "data \<noteq> []"
    and "signal b = replicate (length data) (Fin 1)"
    and "positions b = (replicate (length data) (Fin 0))[0 := Fin 1]"
    and "returns b = pct_change (map Fin data)"
    and "strategy_returns b = returns b"
  using assms
  by (auto simp: backtest_buy_and_hold_def Let_def split: if_splits)

text \<open>When each backtest returns its table: the moving-average backtest for windows that
  are not negative and a series of at least \<open>short_window\<close> bars, the RSI backtest for a
  period that is not negative, buy and hold for a series with at least one bar.\<close>

lemma backtests_return:
  "0 \<le> sw \<Longrightarrow> sw \<le> int (length data) \<Longrightarrow> 0 \<le> lw \<Longrightarrow>
     \<exists>m. backtest_simple_strategy data sw lw = Inr m"
  "0 \<le> p \<Longrightarrow> \<exists>r. backtest_rsi_strategy data p os ob = Inr r"
  "data \<noteq> [] \<Longrightarrow> \<exists>b. backtest_buy_and_hold data = Inr b"
  by (simp_all add: backtest_simple_strategy_def backtest_rsi_strategy_def
      backtest_buy_and_hold_def rsi_def rsi_gain_def rsi_loss_def rolling_def Let_def)

lemma backtest_short_series_raises:
  "int (length data) < sw \<Longrightarrow> backtest_simple_strategy data sw lw = Inl ValueError"
  by (simp add: backtest_simple_strategy_def rolling_def)

text \<open>The strategy returns of the moving-average backtest are a function of the prices
  that commutes with cutting the series.\<close>

lemma take_ma_strategy_column:
  "take n (map2 fmul (shift1 (ma_signal k (rolling_nat k mean (map Fin data))
                                        (rolling_nat l mean (map Fin data))))
                     (pct_change (map Fin data)))
   = map2 fmul (shift1 (ma_signal k (rolling_nat k mean (map Fin (take n data)))
                                    (rolling_nat l mean (map Fin (take n data)))))
               (pct_change (map Fin (take n data)))"
proof -
  have len: "length (rolling_nat l mean (map Fin data)) = length (rolling_nat k mean (map Fin data))"
    by (simp add: rolling_nat_length)
  show ?thesis
    by (simp add: take_map2 take_shift1 take_ma_signal [OF len] take_pct_change take_map
        take_zip take_rolling_nat)
qed

lemma ma_no_lookahead:
  assumes "backtest_simple_strategy data sw lw = Inr m"
    and "backtest_simple_strategy data' sw lw = Inr m'"
    and "take n data' = take n data"
  shows "take n (strategy_returns m') = take n (strategy_returns m)"
proof -
  note c = ma_columns [OF assms(1)] and c' = ma_columns [OF assms(2)]
  show ?thesis
    unfolding c(4) c'(4) c(5) c'(5) c(3) c'(3) take_ma_strategy_column assms(3) ..
qed

lemma rsi_backtest_prefix:
  assumes "backtest_rsi_strategy data p os ob = Inr r"
  shows "\<exists>r'. backtest_rsi_strategy (take n data) p os ob = Inr r' \<and>
              strategy_returns r' = take n (strategy_returns r)"
proof -
  from assms obtain rv where rv: "rsi data p = Inr rv"
    and sr: "strategy_returns r =
      map2 fmul (shift1 (rsi_signal os ob rv)) (pct_change (map Fin data))"
    by (auto simp: backtest_rsi_strategy_def Let_def split: sum.splits)
  show ?thesis
    by (simp add: backtest_rsi_strategy_def Let_def rsi_prefix [OF rv] sr take_map2 take_shift1
        take_rsi_signal take_pct_change take_map take_zip)
qed

lemma hold_prefix:
  assumes "backtest_buy_and_hold data = Inr b"
  shows "\<exists>b'. backtest_buy_and_hold (take (Suc t) data) = Inr b' \<and>
              strategy_returns b' = take (Suc t) (strategy_returns b)"
  using assms
  by (auto simp: backtest_buy_and_hold_def Let_def take_pct_change take_map split: if_splits)

text \<open>
  Claim C1.  In each of the three backtests (moving-average crossover, RSI threshold,
  buy and hold), whenever it returns its table, the raw return of bar \<open>t\<close> is the relative change of the price from
  bar \<open>t - 1\<close> to bar \<open>t\<close>, and the strategy return of bar \<open>t\<close> is the signal
  of bar \<open>t - 1\<close> times the raw return of bar \<open>t\<close> (at the first bar, which has no
  earlier bar, both are missing).  Consequently two price series that agree up to and
  including bar \<open>t\<close> have the same strategy return at bar \<open>t\<close>, whatever the
  prices after bar \<open>t\<close> are.
\<close>

theorem backtest_lag_and_no_lookahead:
  assumes "t < length data" and "t < length data'"
    and "take (Suc t) data' = take (Suc t) data"
    and "backtest_simple_strategy data sw lw = Inr m"
    and "backtest_simple_strategy data' sw lw = Inr m'"
    and "backtest_rsi_strategy data p os ob = Inr r"
    and "backtest_rsi_strategy data' p os ob = Inr r'"
    and "backtest_buy_and_hold data = Inr b"
    and "backtest_buy_and_hold data' = Inr b'"
  shows "returns m ! t =
           (if t = 0 then NaN
            else fsub (fdiv (Fin (data ! t)) (Fin (data ! (t - 1)))) (Fin 1)) \<and>
         returns r ! t = returns m ! t \<and> returns b ! t = returns m ! t \<and>
         strategy_returns m ! t =
           (if t = 0 then NaN else fmul (signal m ! (t - 1)) (returns m ! t)) \<and>
         strategy_returns r ! t =
           (if t = 0 then NaN else fmul (signal r ! (t - 1)) (returns r ! t)) \<and>
         strategy_returns b ! t =
           (if t = 0 then NaN else fmul (signal b ! (t - 1)) (returns b ! t)) \<and>
         strategy_returns m' ! t = strategy_returns m ! t \<and>
         strategy_returns r' ! t = strategy_returns r ! t \<and>
         strategy_returns b' ! t = strategy_returns b ! t"
proof -
  note mc = ma_columns [OF assms(4)] and rc = rsi_columns [OF assms(6)]
    and bc = hold_columns [OF assms(8)]
  have ret: "returns m ! t =
           (if t = 0 then NaN
            else fsub (fdiv (Fin (data ! t)) (Fin (data ! (t - 1)))) (Fin 1))"
    using assms(1) by (simp add: mc(3) pct_change_Fin_nth)
  have ret_r: "returns r ! t = returns m ! t" by (simp add: rc(3) mc(3))
  have ret_b: "returns b ! t = returns m ! t" by (simp add: bc(4) mc(3))
  have lag_m: "strategy_returns m ! t =
           (if t = 0 then NaN else fmul (signal m ! (t - 1)) (returns m ! t))"
    unfolding mc(4) using assms(1) mc(1)
    by (intro lagged_product_nth) (simp_all add: mc(3) pct_change_length)
  have lag_r: "strategy_returns r ! t =
           (if t = 0 then NaN else fmul (signal r ! (t - 1)) (returns r ! t))"
    unfolding rc(4) using assms(1) rc(1)
    by (intro lagged_product_nth) (simp_all add: rc(3) pct_change_length)
  have lag_b: "strategy_returns b ! t =
           (if t = 0 then NaN else fmul (signal b ! (t - 1)) (returns b ! t))"
    using assms(1) by (simp add: bc(5) bc(2) fmul_one_left bc(4) pct_change_Fin_nth)
  have look_m: "strategy_returns m' ! t = strategy_returns m ! t"
  proof -
    from ma_no_lookahead [OF assms(4) assms(5) assms(3)]
    show ?thesis by (rule nth_of_equal_prefix)
  qed
  have look_r: "strategy_returns r' ! t = strategy_returns r ! t"
  proof -
    from rsi_backtest_prefix [OF assms(6), of "Suc t"]
      rsi_backtest_prefix [OF assms(7), of "Suc t"] assms(3)
    have "take (Suc t) (strategy_returns r') = take (Suc t) (strategy_returns r)" by auto
    then show ?thesis by (rule nth_of_equal_prefix)
  qed
  have look_b: "strategy_returns b' ! t = strategy_returns b ! t"
  proof -
    from hold_prefix [OF assms(8), of t] hold_prefix [OF assms(9), of t] assms(3)
    have "take (Suc t) (strategy_returns b') = take (Suc t) (strategy_returns b)" by auto
    then show ?thesis by (rule nth_of_equal_prefix)
  qed
  from ret ret_r ret_b lag_m lag_r lag_b look_m look_r look_b show ?thesis by blast
qed


lemmas backtest_eval =
  rolling_def rolling_nat_def mean_def fsum_def diff_def shift1_def fsub_def fgt_def
  pct_change_def ma_signal_def cumprod_def Let_def rsi_def rsi_gain_def rsi_loss_def
  rsi_signal_def fillna_def ffill_def numeral_2_eq_2 numeral_3_eq_3

lemma ma_example:
  "backtest_simple_strategy [12, 11, 10, 11, 12, 13] 1 3 =
   Inr \<lparr> price = [12, 11, 10, 11, 12, 13],
         signal = [Fin 0, Fin 0, Fin 0, Fin 1, Fin 1, Fin 1],
         positions = [NaN, Fin 0, Fin 0, Fin 1, Fin 0, Fin 0],
         returns = [NaN, Fin (- (1 / 12)), Fin (- (1 / 11)), Fin (1 / 10), Fin (1 / 11),
                    Fin (1 / 12)],
         strategy_returns = [NaN, Fin 0, Fin 0, Fin 0, Fin (1 / 11), Fin (1 / 12)],
         cumulative_returns = [NaN, Fin (11 / 12), Fin (5 / 6), Fin (11 / 12), Fin 1,
                               Fin (13 / 12)],
         cumulative_strategy_returns = [NaN, Fin 1, Fin 1, Fin 1, Fin (12 / 11), Fin (13 / 11)],
         short_ma = [Fin 12, Fin 11, Fin 10, Fin 11, Fin 12, Fin 13],
         long_ma = [NaN, NaN, Fin 11, Fin (32 / 3), Fin 11, Fin 12] \<rparr>"
  by (simp add: backtest_simple_strategy_def backtest_eval)

lemma ma_example_changed:
  "backtest_simple_strategy [12, 11, 10, 11, 12, 3] 1 3 =
   Inr \<lparr> price = [12, 11, 10, 11, 12, 3],
         signal = [Fin 0, Fin 0, Fin 0, Fin 1, Fin 1, Fin 0],
         positions = [NaN, Fin 0, Fin 0, Fin 1, Fin 0, Fin (- 1)],
         returns = [NaN, Fin (- (1 / 12)), Fin (- (1 / 11)), Fin (1 / 10), Fin (1 / 11),
                    Fin (- (3 / 4))],
         strategy_returns = [NaN, Fin 0, Fin 0, Fin 0, Fin (1 / 11), Fin (- (3 / 4))],
         cumulative_returns = [NaN, Fin (11 / 12), Fin (5 / 6), Fin (11 / 12), Fin 1,
                               Fin (1 / 4)],
         cumulative_strategy_returns = [NaN, Fin 1, Fin 1, Fin 1, Fin (12 / 11), Fin (3 / 11)],
         short_ma = [Fin 12, Fin 11, Fin 10, Fin 11, Fin 12, Fin 3],
         long_ma = [NaN, NaN, Fin 11, Fin (32 / 3), Fin 11, Fin (26 / 3)] \<rparr>"
  by (simp add: backtest_simple_strategy_def backtest_eval)

lemma rsi_example:
  "backtest_rsi_strategy [12, 11, 10, 11, 12, 13] 2 30 70 =
   Inr \<lparr> price = [12, 11, 10, 11, 12, 13],
         signal = [Fin 0, Fin 1, Fin 1, Fin 1, Fin 0, Fin 0],
         positions = [NaN, Fin 1, Fin 0, Fin 0, Fin (- 1), Fin 0],
         returns = [NaN, Fin (- (1 / 12)), Fin (- (1 / 11)), Fin (1 / 10), Fin (1 / 11),
                    Fin (1 / 12)],
         strategy_returns = [NaN, Fin 0, Fin (- (1 / 11)), Fin (1 / 10), Fin (1 / 11), Fin 0],
         cumulative_returns = [NaN, Fin (11 / 12), Fin (5 / 6), Fin (11 / 12), Fin 1,
                               Fin (13 / 12)],
         cumulative_strategy_returns = [NaN, Fin 1, Fin (10 / 11), Fin 1, Fin (12 / 11),
                                        Fin (12 / 11)],
         rsi_column = [NaN, Fin 0, Fin 0, Fin 50, Fin 100, Fin 100] \<rparr>"
  by (simp add: backtest_rsi_strategy_def backtest_eval)

lemma rsi_example_changed:
  "backtest_rsi_strategy [12, 11, 10, 11, 12, 3] 2 30 70 =
   Inr \<lparr> price = [12, 11, 10, 11, 12, 3],
         signal = [Fin 0, Fin 1, Fin 1, Fin 1, Fin 0, Fin 1],
         positions = [NaN, Fin 1, Fin 0, Fin 0, Fin (- 1), Fin 1],
         returns = [NaN, Fin (- (1 / 12)), Fin (- (1 / 11)), Fin (1 / 10), Fin (1 / 11),
                    Fin (- (3 / 4))],
         strategy_returns = [NaN, Fin 0, Fin (- (1 / 11)), Fin (1 / 10), Fin (1 / 11), Fin 0],
         cumulative_returns = [NaN, Fin (11 / 12), Fin (5 / 6), Fin (11 / 12), Fin 1,
                               Fin (1 / 4)],
         cumulative_strategy_returns = [NaN, Fin 1, Fin (10 / 11), Fin 1, Fin (12 / 11),
                                        Fin (12 / 11)],
         rsi_column = [NaN, Fin 0, Fin 0, Fin 50, Fin 100, Fin 10] \<rparr>"
  by (simp add: backtest_rsi_strategy_def backtest_eval)

lemma hold_example:
  "backtest_buy_and_hold [12, 11, 10, 11, 12, 13] =
   Inr \<lparr> price = [12, 11, 10, 11, 12, 13],
         signal = [Fin 1, Fin 1, Fin 1, Fin 1, Fin 1, Fin 1],
         positions = [Fin 1, Fin 0, Fin 0, Fin 0, Fin 0, Fin 0],
         returns = [NaN, Fin (- (1 / 12)), Fin (- (1 / 11)), Fin (1 / 10), Fin (1 / 11),
                    Fin (1 / 12)],
         strategy_returns = [NaN, Fin (- (1 / 12)), Fin (- (1 / 11)), Fin (1 / 10),
                             Fin (1 / 11), Fin (1 / 12)],
         cumulative_returns = [NaN, Fin (11 / 12), Fin (5 / 6), Fin (11 / 12), Fin 1,
                               Fin (13 / 12)],
         cumulative_strategy_returns = [NaN, Fin (11 / 12), Fin (5 / 6), Fin (11 / 12), Fin 1,
                                        Fin (13 / 12)] \<rparr>"
  by (simp add: backtest_buy_and_hold_def backtest_eval)

lemma hold_example_changed:
  "backtest_buy_and_hold [12, 11, 10, 11, 12, 3] =
   Inr \<lparr> price = [12, 11, 10, 11, 12, 3],
         signal = [Fin 1, Fin 1, Fin 1, Fin 1, Fin 1, Fin 1],
         positions = [Fin 1, Fin 0, Fin 0, Fin 0, Fin 0, Fin 0],
         returns = [NaN, Fin (- (1 / 12)), Fin (- (1 / 11)), Fin (1 / 10), Fin (1 / 11),
                    Fin (- (3 / 4))],
         strategy_returns = [NaN, Fin (- (1 / 12)), Fin (- (1 / 11)), Fin (1 / 10),
                             Fin (1 / 11), Fin (- (3 / 4))],
         cumulative_returns = [NaN, Fin (11 / 12), Fin (5 / 6), Fin (11 / 12), Fin 1,
                               Fin (1 / 4)],
         cumulative_strategy_returns = [NaN, Fin (11 / 12), Fin (5 / 6), Fin (11 / 12), Fin 1,
                                        Fin (1 / 4)] \<rparr>"
  by (simp add: backtest_buy_and_hold_def backtest_eval)

theorem backtest_lag_and_no_lookahead_witness:
  "(4::nat) < length [12, 11, 10, 11, 12, 13 :: real] \<and>
   (4::nat) < length [12, 11, 10, 11, 12, 3 :: real] \<and>
   take (Suc 4) [12, 11, 10, 11, 12, 3 :: real] = take (Suc 4) [12, 11, 10, 11, 12, 13] \<and>
   map_sum id strategy_returns (backtest_simple_strategy [12, 11, 10, 11, 12, 13] 1 3) =
     Inr [NaN, Fin 0, Fin 0, Fin 0, Fin (1 / 11), Fin (1 / 12)] \<and>
   map_sum id strategy_returns (backtest_simple_strategy [12, 11, 10, 11, 12, 3] 1 3) =
     Inr [NaN, Fin 0, Fin 0, Fin 0, Fin (1 / 11), Fin (- (3 / 4))] \<and>
   map_sum id strategy_returns (backtest_rsi_strategy [12, 11, 10, 11, 12, 13] 2 30 70) =
     Inr [NaN, Fin 0, Fin (- (1 / 11)), Fin (1 / 10), Fin (1 / 11), Fin 0] \<and>
   map_sum id strategy_returns (backtest_rsi_strategy [12, 11, 10, 11, 12, 3] 2 30 70) =
     Inr [NaN, Fin 0, Fin (- (1 / 11)), Fin (1 / 10), Fin (1 / 11), Fin 0] \<and>
   map_sum id strategy_returns (backtest_buy_and_hold [12, 11, 10, 11, 12, 13]) =
     Inr [NaN, Fin (- (1 / 12)), Fin (- (1 / 11)), Fin (1 / 10), Fin (1 / 11), Fin (1 / 12)] \<and>
   map_sum id strategy_returns (backtest_buy_and_hold [12, 11, 10, 11, 12, 3]) =
     Inr [NaN, Fin (- (1 / 12)), Fin (- (1 / 11)), Fin (1 / 10), Fin (1 / 11), Fin (- (3 / 4))]"
proof -
  have t: "(4::nat) < length [12, 11, 10, 11, 12, 13 :: real]"
    and t': "(4::nat) < length [12, 11, 10, 11, 12, 3 :: real]"
    and p: "take (Suc 4) [12, 11, 10, 11, 12, 3 :: real] = take (Suc 4) [12, 11, 10, 11, 12, 13]"
    by simp_all
  from backtest_lag_and_no_lookahead [OF t t' p ma_example ma_example_changed rsi_example
      rsi_example_changed hold_example hold_example_changed]
  show ?thesis
    by (simp add: ma_example ma_example_changed rsi_example rsi_example_changed
        hold_example hold_example_changed)
qed

text \<open>The signal of the first bar.\<close>

lemma flt_NaN_right: "flt a NaN = False"
  by (cases a) simp_all

lemma ma_first_signal:
  assumes "backtest_simple_strategy data sw lw = Inr m" and "data \<noteq> []"
  shows "signal m ! 0 = Fin 0"
proof -
  have "rolling_nat 0 mean (map Fin data) ! 0 = NaN"
    using assms(2) by (simp add: rolling_nat_nth)
  then show ?thesis
    using assms(2)
    by (cases "nat sw = 0")
       (simp_all add: ma_columns(5) [OF assms(1)] ma_signal_def rolling_nat_length fgt_def
          flt_NaN_right upt_conv_Cons)
qed

lemma rsi_first:
  assumes "rsi data p = Inr rv" and "data \<noteq> []"
  shows "rv ! 0 = NaN"
proof -
  let ?gi = "map (\<lambda>d. if fgt d (Fin 0) then d else Fin 0) (diff (map Fin data))"
  let ?li = "map fneg (map (\<lambda>d. if flt d (Fin 0) then d else Fin 0) (diff (map Fin data)))"
  from assms(1) obtain g l where g: "rsi_gain data p = Inr g" and l: "rsi_loss data p = Inr l"
    and rv: "rv = map (\<lambda>rs. fsub (Fin 100) (fdiv (Fin 100) (fadd (Fin 1) rs))) (map2 fdiv g l)"
    by (auto simp: rsi_def split: sum.splits)
  from g have gg: "g = rolling_nat (nat p) mean ?gi"
    by (auto simp: rsi_gain_def rolling_def split: if_splits)
  from l have ll: "l = rolling_nat (nat p) mean ?li"
    by (auto simp: rsi_loss_def rolling_def split: if_splits)
  from assms(2) have z: "0 < length data" by simp
  have len: "0 < length g" "0 < length l"
    using z by (simp_all add: gg ll rolling_nat_length diff_length)
  have d0: "diff (map Fin data) ! 0 = NaN"
    using z by (simp add: diff_Fin_nth)
  have gi0: "take 1 ?gi = [Fin 0]"
    using z d0 by (simp add: take_Suc_conv_app_nth diff_length fgt_def)
  have li0: "take 1 ?li = [Fin 0]"
    using z d0 by (simp add: take_Suc_conv_app_nth diff_length)
  have "fdiv (g ! 0) (l ! 0) = NaN"
  proof (cases "nat p = 1")
    case True
    have "g ! 0 = Fin 0" "l ! 0 = Fin 0"
      using z gi0 li0 by (simp_all add: gg ll True rolling_nat_nth diff_length mean_def fsum_def)
    then show ?thesis by simp
  next
    case False
    then have "nat p = 0 \<or> Suc 0 < nat p" by arith
    then have "g ! 0 = NaN"
      using z by (simp add: gg rolling_nat_nth diff_length)
    then show ?thesis by simp
  qed
  with len show ?thesis
    by (simp add: rv fsub_def)
qed

lemma rsi_first_signal:
  assumes "backtest_rsi_strategy data p os ob = Inr r" and "data \<noteq> []"
  shows "signal r ! 0 = Fin 0"
proof -
  from assms(1) obtain rv where rv: "rsi data p = Inr rv"
    and s: "signal r = rsi_signal os ob rv"
    by (auto simp: backtest_rsi_strategy_def Let_def split: sum.splits)
  from rsi_length [OF rv] assms(2) obtain x rest where xr: "rv = x # rest"
    by (cases rv) auto
  with rsi_first [OF rv assms(2)] have "x = NaN" by simp
  with xr show ?thesis
    by (simp add: s rsi_signal_def fillna_def ffill_def)
qed

text \<open>
  Claim C6, as amended.  In each of the three backtests, whenever it returns its table,
  the position change of a bar \<open>t \<ge> 1\<close> is the signal of bar \<open>t\<close> minus the
  signal of bar \<open>t - 1\<close>.  At the first bar the signal of buy and hold is \<open>1\<close>
  and its position change is that signal; the signal of the moving-average and of the
  RSI backtest is \<open>0\<close> and their position change is missing.
\<close>

theorem position_change_columns:
  assumes "t < length data"
    and "backtest_simple_strategy data sw lw = Inr m"
    and "backtest_rsi_strategy data p os ob = Inr r"
    and "backtest_buy_and_hold data = Inr b"
  shows "positions m ! t = (if t = 0 then NaN else fsub (signal m ! t) (signal m ! (t - 1))) \<and>
         positions r ! t = (if t = 0 then NaN else fsub (signal r ! t) (signal r ! (t - 1))) \<and>
         positions b ! t =
           (if t = 0 then signal b ! 0 else fsub (signal b ! t) (signal b ! (t - 1))) \<and>
         signal b ! 0 = Fin 1 \<and> positions b ! 0 = Fin 1 \<and>
         signal m ! 0 = Fin 0 \<and> positions m ! 0 = NaN \<and>
         signal r ! 0 = Fin 0 \<and> positions r ! 0 = NaN"
proof -
  note mc = ma_columns [OF assms(2)] and rc = rsi_columns [OF assms(3)]
    and bc = hold_columns [OF assms(4)]
  from assms(1) have ne: "data \<noteq> []" and z: "0 < length data" by auto
  have b0: "signal b ! 0 = Fin 1" "positions b ! 0 = Fin 1"
    using z by (simp_all add: bc(2,3))
  have m0: "signal m ! 0 = Fin 0" by (rule ma_first_signal [OF assms(2) ne])
  have r0: "signal r ! 0 = Fin 0" by (rule rsi_first_signal [OF assms(3) ne])
  have p0: "positions m ! 0 = NaN" "positions r ! 0 = NaN"
    using z by (simp_all add: mc(1,2) rc(1,2) diff_nth fl_NaN_right)
  have "positions m ! t = (if t = 0 then NaN else fsub (signal m ! t) (signal m ! (t - 1)))"
    using assms(1) by (simp add: mc(1,2) diff_nth fl_NaN_right)
  moreover
  have "positions r ! t = (if t = 0 then NaN else fsub (signal r ! t) (signal r ! (t - 1)))"
    using assms(1) by (simp add: rc(1,2) diff_nth fl_NaN_right)
  moreover
  have "positions b ! t =
           (if t = 0 then signal b ! 0 else fsub (signal b ! t) (signal b ! (t - 1)))"
    using assms(1) by (cases t) (simp_all add: bc(2,3) fsub_def)
  ultimately show ?thesis using b0 m0 r0 p0 by blast
qed

theorem position_change_columns_witness:
  "(3::nat) < length [12, 11, 10, 11, 12, 13 :: real] \<and>
   map_sum id positions (backtest_simple_strategy [12, 11, 10, 11, 12, 13] 1 3) =
     Inr [NaN, Fin 0, Fin 0, Fin 1, Fin 0, Fin 0] \<and>
   map_sum id signal (backtest_simple_strategy [12, 11, 10, 11, 12, 13] 1 3) =
     Inr [Fin 0, Fin 0, Fin 0, Fin 1, Fin 1, Fin 1] \<and>
   map_sum id positions (backtest_rsi_strategy [12, 11, 10, 11, 12, 13] 2 30 70) =
     Inr [NaN, Fin 1, Fin 0, Fin 0, Fin (- 1), Fin 0] \<and>
   map_sum id signal (backtest_rsi_strategy [12, 11, 10, 11, 12, 13] 2 30 70) =
     Inr [Fin 0, Fin 1, Fin 1, Fin 1, Fin 0, Fin 0] \<and>
   map_sum id positions (backtest_buy_and_hold [12, 11, 10, 11, 12, 13]) =
     Inr [Fin 1, Fin 0, Fin 0, Fin 0, Fin 0, Fin 0] \<and>
   map_sum id signal (backtest_buy_and_hold [12, 11, 10, 11, 12, 13]) =
     Inr [Fin 1, Fin 1, Fin 1, Fin 1, Fin 1, Fin 1]"
proof -
  have t: "(3::nat) < length [12, 11, 10, 11, 12, 13 :: real]" by simp
  from position_change_columns [OF t ma_example rsi_example hold_example]
  show ?thesis by (simp add: ma_example rsi_example hold_example)
qed

text \<open>
  Claim C6 as stated fails: on the prices \<open>[12, 11, 10, 11, 12, 13]\<close> the
  moving-average backtest (windows \<open>1\<close> and \<open>3\<close>) and the RSI backtest (period
  \<open>2\<close>, thresholds \<open>30\<close> and \<open>70\<close>) have the signal \<open>0\<close> at the first bar,
  and their position change there is missing, not \<open>0\<close>.
\<close>

theorem first_position_change_counterexample:
  "map_sum id (hd \<circ> positions) (backtest_simple_strategy [12, 11, 10, 11, 12, 13] 1 3) = Inr NaN \<and>
   map_sum id (hd \<circ> signal) (backtest_simple_strategy [12, 11, 10, 11, 12, 13] 1 3) = Inr (Fin 0) \<and>
   map_sum id (hd \<circ> positions) (backtest_rsi_strategy [12, 11, 10, 11, 12, 13] 2 30 70) = Inr NaN \<and>
   map_sum id (hd \<circ> signal) (backtest_rsi_strategy [12, 11, 10, 11, 12, 13] 2 30 70) = Inr (Fin 0)"
  by (simp add: ma_example rsi_example)

section \<open>The exponential moving average\<close>

lemma weight_sum_Suc:
  fixes q :: real
  shows "(\<Sum>i\<le>Suc k. q ^ (Suc k - i)) = q * (\<Sum>i\<le>k. q ^ (k - i)) + 1"
proof -
  have "(\<Sum>i\<le>k. q ^ (Suc k - i)) = (\<Sum>i\<le>k. q * q ^ (k - i))"
    by (rule sum.cong) (simp_all add: Suc_diff_le)
  then show ?thesis by (simp add: sum_distrib_left)
qed

lemma weighted_sum_Suc:
  fixes q :: real
  shows "(\<Sum>i\<le>Suc k. q ^ (Suc k - i) * x ! i) = q * (\<Sum>i\<le>k. q ^ (k - i) * x ! i) + x ! Suc k"
proof -
  have "(\<Sum>i\<le>k. q ^ (Suc k - i) * x ! i) = (\<Sum>i\<le>k. q * (q ^ (k - i) * x ! i))"
    by (rule sum.cong) (simp_all add: Suc_diff_le)
  then show ?thesis by (simp add: sum_distrib_left)
qed

lemma weight_sum_pos:
  fixes q :: real
  assumes "0 \<le> q"
  shows "0 < (\<Sum>i\<le>k. q ^ (k - i))"
proof (induction k)
  case 0
  show ?case by simp
next
  case (Suc k)
  from assms Suc have "0 \<le> q * (\<Sum>i\<le>k. q ^ (k - i))" by simp
  then show ?case unfolding weight_sum_Suc by linarith
qed

lemma ewm_step:
  fixes q :: real
  assumes "0 \<le> q"
  shows "(if Fin (ema_weighted (1 - q) x k) \<noteq> Fin (x ! Suc k)
          then fdiv (fadd (fmul (Fin ((\<Sum>i\<le>k. q ^ (k - i)) * q)) (Fin (ema_weighted (1 - q) x k)))
                          (fmul (Fin 1) (Fin (x ! Suc k))))
                    (Fin ((\<Sum>i\<le>k. q ^ (k - i)) * q + 1))
          else Fin (ema_weighted (1 - q) x k))
         = Fin (ema_weighted (1 - q) x (Suc k))"
proof -
  let ?W = "\<Sum>i\<le>k. q ^ (k - i)"
  let ?S = "\<Sum>i\<le>k. q ^ (k - i) * x ! i"
  have W: "0 < ?W" using assms by (rule weight_sum_pos)
  then have W1: "0 < ?W * q + 1" using assms by (simp add: add_nonneg_pos)
  have e: "ema_weighted (1 - q) x k = ?S / ?W" by (simp add: ema_weighted_def)
  have d: "1 - (1 - q) = q" by simp
  have c: "?W * q = q * ?W" by simp
  have e': "ema_weighted (1 - q) x (Suc k) = (q * ?S + x ! Suc k) / (?W * q + 1)"
    unfolding ema_weighted_def d weight_sum_Suc weighted_sum_Suc c ..
  show ?thesis
  proof (cases "?S / ?W = x ! Suc k")
    case True
    then have "?S = x ! Suc k * ?W" using W by (simp add: field_simps)
    then have "(q * ?S + x ! Suc k) / (?W * q + 1) = x ! Suc k * (?W * q + 1) / (?W * q + 1)"
      by (simp add: algebra_simps)
    also have "\<dots> = x ! Suc k" using W1 by simp
    finally show ?thesis using True by (simp add: e e')
  next
    case False
    have "?W * q * (?S / ?W) = q * ?S" using W by simp
    with False W1 show ?thesis by (simp add: e e')
  qed
qed

lemma ewm_loop_Fin:
  fixes q :: real
  assumes "0 \<le> q"
  shows "k < length x \<Longrightarrow>
         ewm_loop q (Fin (ema_weighted (1 - q) x k)) (\<Sum>i\<le>k. q ^ (k - i))
                  (map Fin (drop (Suc k) x))
         = map (\<lambda>t. Fin (ema_weighted (1 - q) x t)) [Suc k..<length x]"
proof (induction "length x - Suc k" arbitrary: k)
  case 0
  then show ?case by simp
next
  case (Suc n)
  then have lt: "Suc k < length x" by simp
  then have dr: "drop (Suc k) x = x ! Suc k # drop (Suc (Suc k)) x"
    by (simp add: Cons_nth_drop_Suc)
  from Suc(2) have n: "n = length x - Suc (Suc k)" by simp
  have up: "[Suc k..<length x] = Suc k # [Suc (Suc k)..<length x]"
    using lt by (simp add: upt_conv_Cons)
  have st: "(\<Sum>i\<le>k. q ^ (k - i)) * q + 1 = (\<Sum>i\<le>Suc k. q ^ (Suc k - i))"
    unfolding weight_sum_Suc by simp
  show ?case
    unfolding dr up list.map ewm_loop.simps
    using Suc(1) [OF n lt, unfolded st [symmetric]]
    by (simp only: isnan.simps Let_def ewm_step [OF assms] if_True if_False not_False_eq_True)
qed

lemma ema_example: "exponential_moving_average [1, 2] 3 = Inr [Fin 1, Fin (5 / 3)]"
  by (simp add: exponential_moving_average_def ewm_mean_def)

text \<open>
  Claim C2.  For a span of at least \<open>1\<close> (a smaller one is refused) and every finite
  series, the exponential average at every bar \<open>t\<close>, the early bars included, is the
  sum of \<open>x[0..t]\<close> weighted by \<open>(1 - \<alpha>)^(t - i)\<close>, \<open>\<alpha> = 2 / (span + 1)\<close>,
  divided by the sum of these weights.  It is not the recurrence seeded with the first
  raw value: on the series \<open>[1, 2]\<close> with span \<open>3\<close> the two differ.
\<close>

theorem ema_is_normalised_weighted_sum:
  assumes "1 \<le> spn" and "t < length data"
  shows "(\<exists>ys. exponential_moving_average data spn = Inr ys \<and> length ys = length data \<and>
              ys ! t = Fin (ema_weighted (2 / (real_of_int spn + 1)) data t)) \<and>
         exponential_moving_average [1, 2] 3 \<noteq> Inr (map Fin (ema_seeded (2 / (3 + 1)) [1, 2]))"
proof -
  let ?a = "2 / (real_of_int spn + 1)"
  from assms(1) have q: "0 \<le> 1 - ?a" by simp
  from assms(2) obtain x rest where data: "data = x # rest" by (cases data) simp_all
  have z: "0 < length data" by (simp add: data)
  have first: "Fin x = Fin (ema_weighted ?a data 0)"
    by (simp add: ema_weighted_def data)
  have loop: "ewm_loop (1 - ?a) (Fin x) 1 (map Fin rest)
      = map (\<lambda>t. Fin (ema_weighted ?a data t)) [Suc 0..<length data]"
    using ewm_loop_Fin [OF q z] by (simp add: data ema_weighted_def)
  have up: "[0..<length data] = 0 # [Suc 0..<length data]"
    using z by (simp add: upt_conv_Cons)
  have "exponential_moving_average data spn
      = Inr (Fin x # ewm_loop (1 - ?a) (Fin x) 1 (map Fin rest))"
    using assms(1) by (simp add: exponential_moving_average_def ewm_mean_def data)
  also have "Fin x # ewm_loop (1 - ?a) (Fin x) 1 (map Fin rest)
      = map (\<lambda>t. Fin (ema_weighted ?a data t)) [0..<length data]"
    by (simp only: up list.map loop first [symmetric])
  finally have "exponential_moving_average data spn
      = Inr (map (\<lambda>t. Fin (ema_weighted ?a data t)) [0..<length data])" .
  moreover have "exponential_moving_average [1, 2] 3 \<noteq> Inr (map Fin (ema_seeded (2 / (3 + 1)) [1, 2]))"
    by (simp add: ema_example ema_seeded_def)
  ultimately show ?thesis using assms(2) by simp
qed

theorem ema_is_normalised_weighted_sum_witness:
  "(1::int) \<le> 3 \<and> (1::nat) < length [1, 2 :: real] \<and>
   exponential_moving_average [1, 2] 3 = Inr [Fin 1, Fin (5 / 3)] \<and>
   ema_weighted (2 / (real_of_int 3 + 1)) [1, 2] 1 = 5 / 3 \<and>
   ema_seeded (2 / (3 + 1)) [1, 2] = [1, 3 / 2]"
proof -
  have a: "(1::int) \<le> 3" and b: "(1::nat) < length [1, 2 :: real]" by simp_all
  from ema_is_normalised_weighted_sum [OF a b]
  have "ema_weighted (2 / (real_of_int 3 + 1)) [1, 2] 1 = 5 / 3"
    by (simp add: ema_example)
  then show ?thesis by (simp add: ema_example ema_seeded_def)
qed

section \<open>Portfolio weights\<close>

lemmas mat_eval = is_pinv_def mat_mul_def mat_transpose_def ncols_def numeral_2_eq_2

lemma pinv_example_regular:
  assumes "a * d - b * c \<noteq> 0"
  shows "is_pinv [[a, b], [c, d]] (pinv_example [[a, b], [c, d]])"
  using assms
  apply (simp add: pinv_example_def mat_eval)
  apply (intro conjI)
  apply (simp_all add: field_simps)
  apply algebra+
  done

lemma pinv_example_diagonal:
  assumes "a * d = 0"
  shows "is_pinv [[a, 0], [0, d]] (pinv_example [[a, 0], [0, d]])"
  using assms by (auto simp: pinv_example_def mat_eval)

lemma dict_set_new: "k \<notin> fst ` set d \<Longrightarrow> dict_set k v d = d @ [(k, v)]"
  by (induction d) auto

lemma foldl_dict_set_distinct:
  "distinct (map fst (d @ kvs)) \<Longrightarrow> foldl (\<lambda>d (k, v). dict_set k v d) d kvs = d @ kvs"
proof (induction kvs arbitrary: d)
  case Nil
  then show ?case by simp
next
  case (Cons kv kvs)
  obtain k v where kv: "kv = (k, v)" by (cases kv)
  from Cons.prems have new: "k \<notin> fst ` set d" by (auto simp: kv)
  from Cons.prems have "distinct (map fst ((d @ [(k, v)]) @ kvs))" by (simp add: kv)
  from Cons.IH [OF this] show ?case by (simp add: kv dict_set_new [OF new])
qed

lemma dict_of_distinct: "distinct (map fst kvs) \<Longrightarrow> dict_of kvs = kvs"
  using foldl_dict_set_distinct [of "[]" kvs] by (simp add: dict_of_def)

lemma dropna_Fin: "dropna (map Fin vs) = map Fin vs"
  by (induction vs) (simp_all add: dropna_def)

lemma sum_list_divide:
  fixes c :: real
  shows "sum_list (map (\<lambda>x. x / c) xs) = sum_list xs / c"
  by (induction xs) (simp_all add: add_divide_distrib)

lemma map_fdiv_Fin:
  "c \<noteq> 0 \<Longrightarrow> map (\<lambda>v. fdiv v (Fin c)) (map Fin xs) = map Fin (map (\<lambda>x. x / c) xs)"
  by simp

lemma normalised_sum:
  assumes "sum_list xs \<noteq> 0"
  shows "fsum (map (\<lambda>v. fdiv v (Fin (sum_list xs))) (map Fin xs)) = Fin 1"
proof -
  have "map (\<lambda>v. fdiv v (Fin (sum_list xs))) (map Fin xs)
      = map Fin (map (\<lambda>x. x / sum_list xs) xs)"
    using assms by (rule map_fdiv_Fin)
  then show ?thesis
    using assms by (simp only: fsum_Fin sum_list_divide) simp
qed

lemma normalised_finite:
  assumes "c \<noteq> 0"
  shows "list_all isfinite (map (\<lambda>v. fdiv v (Fin c)) (map Fin xs))"
proof -
  have "map (\<lambda>v. fdiv v (Fin c)) (map Fin xs) = map Fin (map (\<lambda>x. x / c) xs)"
    using assms by (rule map_fdiv_Fin)
  then show ?thesis by (simp only: list_all_isfinite_map_Fin)
qed

lemma weights_of_result:
  assumes "length ws = length returns_data" and "distinct (map fst returns_data)"
  shows "weights (portfolio_result returns_data ws) = zip (map fst returns_data) ws"
    and "map snd (weights (portfolio_result returns_data ws)) = ws"
proof -
  from assms have "distinct (map fst (zip (map fst returns_data) ws))" by simp
  then show "weights (portfolio_result returns_data ws) = zip (map fst returns_data) ws"
    by (simp add: portfolio_result_def Let_def dict_of_distinct)
  with assms(1) show "map snd (weights (portfolio_result returns_data ws)) = ws" by simp
qed

lemma equal_weights_ok:
  assumes "returns_data \<noteq> []"
  shows "list_all fnonneg (equal_weights returns_data)"
    and "fsum (equal_weights returns_data) = Fin 1"
proof -
  let ?n = "length returns_data"
  show "list_all fnonneg (equal_weights returns_data)"
    by (simp add: equal_weights_def list_all_iff fnonneg_iff)
  have "equal_weights returns_data = map Fin (replicate ?n (1 / real ?n))"
    by (simp add: equal_weights_def)
  moreover from assms have "real ?n \<noteq> 0" by simp
  ultimately show "fsum (equal_weights returns_data) = Fin 1"
    by (simp only: fsum_Fin sum_list_replicate) simp
qed

lemma fpos_ex: "fpos x \<Longrightarrow> \<exists>v. x = Fin v \<and> 0 < v"
  by (cases x) simp_all

lemma list_all_fpos_ex: "list_all fpos xs \<Longrightarrow> \<exists>vs. xs = map Fin vs \<and> (\<forall>v\<in>set vs. 0 < v)"
proof (induction xs)
  case Nil
  then show ?case by simp
next
  case (Cons x xs)
  from Cons.prems have "fpos x" "list_all fpos xs" by simp_all
  with Cons.IH fpos_ex obtain v vs where "x = Fin v" "0 < v" "xs = map Fin vs" "\<forall>v\<in>set vs. 0 < v"
    by blast
  then have "x # xs = map Fin (v # vs) \<and> (\<forall>u\<in>set (v # vs). 0 < u)" by simp
  then show ?case by (rule exI)
qed

lemma sum_list_pos_real:
  fixes xs :: "real list"
  assumes "xs \<noteq> []" "\<forall>x\<in>set xs. 0 < x"
  shows "0 < sum_list xs"
  using assms
proof (induction xs)
  case Nil
  then show ?case by simp
next
  case (Cons x xs)
  then have "0 < x" "0 \<le> sum_list xs" by (simp_all add: sum_list_nonneg less_imp_le)
  then show ?case by simp
qed

lemma risk_parity_weights_ok:
  assumes "returns_data \<noteq> []"
    and "list_all (\<lambda>c. fpos (std (map Fin (snd c)))) returns_data"
  shows "list_all fnonneg (risk_parity_weights returns_data)"
    and "fsum (risk_parity_weights returns_data) = Fin 1"
    and "length (risk_parity_weights returns_data) = length returns_data"
proof -
  from assms(2) have "list_all fpos (map (\<lambda>c. std (map Fin (snd c))) returns_data)"
    by (simp add: list_all_iff)
  then obtain ss where ss: "map (\<lambda>c. std (map Fin (snd c))) returns_data = map Fin ss"
    and pos: "\<forall>s\<in>set ss. 0 < s"
    using list_all_fpos_ex by blast
  from ss have len: "length ss = length returns_data" by (metis length_map)
  define iv where "iv = map (\<lambda>s. 1 / s) ss"
  have iv: "map (fdiv (Fin 1)) (map Fin ss) = map Fin iv"
    using pos by (fastforce simp: iv_def)
  from assms(1) len have "iv \<noteq> []" by (auto simp: iv_def)
  moreover from pos have ivpos: "\<forall>x\<in>set iv. 0 < x" by (simp add: iv_def)
  ultimately have T: "0 < sum_list iv" by (rule sum_list_pos_real)
  have w: "risk_parity_weights returns_data
      = map (\<lambda>v. fdiv v (Fin (sum_list iv))) (map Fin iv)"
    by (simp only: risk_parity_weights_def Let_def ss iv fsum_skipna_def dropna_Fin fsum_Fin)
  from T show "fsum (risk_parity_weights returns_data) = Fin 1"
    unfolding w by (intro normalised_sum) simp
  from T ivpos show "list_all fnonneg (risk_parity_weights returns_data)"
    unfolding w by (auto simp: list_all_iff fnonneg_iff intro!: divide_nonneg_pos less_imp_le)
  show "length (risk_parity_weights returns_data) = length returns_data"
    unfolding w by (simp add: iv_def len)
qed

lemma min_variance_weights_ok:
  assumes "sum_list (map sum_list X) \<noteq> 0"
  shows "list_all isfinite (min_variance_weights X)"
    and "fsum (min_variance_weights X) = Fin 1"
proof -
  have w: "min_variance_weights X
      = map (\<lambda>v. fdiv v (Fin (sum_list (map sum_list X)))) (map Fin (map sum_list X))"
    by (simp add: min_variance_weights_def Let_def fsum_Fin [symmetric] comp_def)
  from assms show "list_all isfinite (min_variance_weights X)"
    unfolding w by (rule normalised_finite)
  from assms show "fsum (min_variance_weights X) = Fin 1"
    unfolding w by (rule normalised_sum)
qed

lemma min_variance_weights_degenerate:
  assumes "sum_list (map sum_list X) = 0"
  shows "list_all (\<lambda>w. \<not> isfinite w) (min_variance_weights X)"
proof -
  have w: "min_variance_weights X
      = map (\<lambda>v. fdiv v (Fin (sum_list (map sum_list X)))) (map Fin (map sum_list X))"
    by (simp add: min_variance_weights_def Let_def fsum_Fin [symmetric] comp_def)
  show ?thesis unfolding w assms by (auto simp: list_all_iff)
qed

lemma min_variance_weights_length: "length (min_variance_weights X) = length X"
  by (simp add: min_variance_weights_def Let_def)

lemma fin_vals_length: "fin_vals r = Some v \<Longrightarrow> length v = length r"
proof (induction r arbitrary: v)
  case Nil
  then show ?case by simp
next
  case (Cons x r)
  then show ?case by (cases x) auto
qed

lemma fin_rows_length: "fin_rows M = Some C \<Longrightarrow> length C = length M"
  by (induction M arbitrary: C) (auto split: option.splits)

lemma cov_length: "length (cov cols) = length cols"
  by (simp add: cov_def)


lemma optimize_equal:
  "returns_data \<noteq> [] \<Longrightarrow>
   portfolio_optimization pinv returns_data ''equal_weight''
     = Inr (portfolio_result returns_data (equal_weights returns_data))"
  by (simp add: portfolio_optimization_def)

lemma optimize_risk_parity:
  "portfolio_optimization pinv returns_data ''risk_parity''
     = Inr (portfolio_result returns_data (risk_parity_weights returns_data))"
  by (simp add: portfolio_optimization_def)

lemma optimize_min_variance:
  "fin_rows (cov (map snd returns_data)) = Some C \<Longrightarrow>
   portfolio_optimization pinv returns_data ''minimum_variance''
     = Inr (portfolio_result returns_data (min_variance_weights (pinv C)))"
  by (simp add: portfolio_optimization_def)

lemma cov_rows: "fin_rows (cov (map snd returns_data)) = Some C \<Longrightarrow> length C = length returns_data"
  by (auto dest!: fin_rows_length simp: cov_length)

lemma min_variance_weights_all_zero:
  assumes "list_all (\<lambda>row. sum_list row = 0) X"
  shows "list_all isnan (min_variance_weights X)"
proof -
  from assms have w: "map (\<lambda>row. Fin (sum_list row)) X = replicate (length X) (Fin 0)"
    by (induction X) simp_all
  have s: "fsum (replicate n (Fin 0)) = Fin 0" for n
    by (induction n) (simp_all add: fsum_def)
  show ?thesis
    by (simp add: min_variance_weights_def Let_def w s list_all_iff)
qed

text \<open>Examples with two assets.\<close>

lemma cov_example_negative:
  "fin_rows (cov [[0, 1, 2], [1, 0, 5]]) = Some [[1, 2], [2, 7]]"
  by (simp add: cov_def covariance_def)

lemma cov_example_regular:
  "fin_rows (cov [[0, 1, 2], [0, 4, 2]]) = Some [[1, 1], [1, 4]]"
  by (simp add: cov_def covariance_def)

lemma cov_example_singular:
  "fin_rows (cov [[0, 1, 2], [5, 5, 5]]) = Some [[1, 0], [0, 0]]"
  by (simp add: cov_def covariance_def)

lemma cov_example_degenerate:
  "fin_rows (cov [[1, 1, 1], [2, 2, 2]]) = Some [[0, 0], [0, 0]]"
  by (simp add: cov_def covariance_def)

lemmas weights_eval =
  portfolio_optimization_def portfolio_result_def min_variance_weights_def pinv_example_def
  fsum_def dict_of_def Let_def

lemma weights_example_negative:
  "map_sum id weights
     (portfolio_optimization pinv_example [(''A'', [0, 1, 2]), (''B'', [1, 0, 5])]
        ''minimum_variance'')
   = Inr [(''A'', Fin (5 / 4)), (''B'', Fin (- (1 / 4)))]"
  by (simp add: cov_example_negative weights_eval)

lemma weights_example_singular:
  "map_sum id weights
     (portfolio_optimization pinv_example [(''A'', [0, 1, 2]), (''B'', [5, 5, 5])]
        ''minimum_variance'')
   = Inr [(''A'', Fin 1), (''B'', Fin 0)]"
  by (simp add: cov_example_singular weights_eval)

lemma weights_example_degenerate:
  "map_sum id weights
     (portfolio_optimization pinv_example [(''A'', [1, 1, 1]), (''B'', [2, 2, 2])]
        ''minimum_variance'')
   = Inr [(''A'', NaN), (''B'', NaN)]"
  by (simp add: cov_example_degenerate weights_eval)

lemma std_examples:
  "std (map Fin [0, 1, 2]) = Fin 1" "std (map Fin [0, 4, 2]) = Fin 2"
  by (simp_all add: std_def mean_def fsum_def fsub_def)

text \<open>
  Claim C3, as amended.  For one or more return series with distinct asset ids: with
  equal weights every weight is \<open>1 / n\<close>, none is negative and they sum to \<open>1\<close>;
  with risk parity, when the volatility of every asset is defined and positive, no
  weight is negative and they sum to \<open>1\<close>; with minimum variance, when the
  covariance matrix is defined, \<open>np.linalg.pinv\<close> returns a matrix with one row for
  each asset and the raw weights (the row sums of that matrix) do not sum to \<open>0\<close>,
  every weight is finite and they sum to \<open>1\<close>.
\<close>

theorem portfolio_weights_by_method:
  assumes "returns_data \<noteq> []" and "distinct (map fst returns_data)"
  shows "(\<exists>pf. portfolio_optimization pinv returns_data ''equal_weight'' = Inr pf \<and>
              map snd (weights pf) =
                replicate (length returns_data) (Fin (1 / real (length returns_data))) \<and>
              list_all fnonneg (map snd (weights pf)) \<and>
              fsum (map snd (weights pf)) = Fin 1) \<and>
         (list_all (\<lambda>c. fpos (std (map Fin (snd c)))) returns_data \<longrightarrow>
            (\<exists>pf. portfolio_optimization pinv returns_data ''risk_parity'' = Inr pf \<and>
                  list_all fnonneg (map snd (weights pf)) \<and>
                  fsum (map snd (weights pf)) = Fin 1)) \<and>
         (\<forall>C. fin_rows (cov (map snd returns_data)) = Some C \<and>
              length (pinv C) = length C \<and> sum_list (map sum_list (pinv C)) \<noteq> 0 \<longrightarrow>
            (\<exists>pf. portfolio_optimization pinv returns_data ''minimum_variance'' = Inr pf \<and>
                  list_all isfinite (map snd (weights pf)) \<and>
                  fsum (map snd (weights pf)) = Fin 1))"
proof (intro conjI impI allI)
  have len: "length (equal_weights returns_data) = length returns_data"
    by (simp add: equal_weights_def)
  show "\<exists>pf. portfolio_optimization pinv returns_data ''equal_weight'' = Inr pf \<and>
              map snd (weights pf) =
                replicate (length returns_data) (Fin (1 / real (length returns_data))) \<and>
              list_all fnonneg (map snd (weights pf)) \<and> fsum (map snd (weights pf)) = Fin 1"
    using assms(1) equal_weights_ok [OF assms(1)]
    by (simp add: optimize_equal weights_of_result(2) [OF len assms(2)])
       (simp add: equal_weights_def)
next
  assume "list_all (\<lambda>c. fpos (std (map Fin (snd c)))) returns_data"
  from risk_parity_weights_ok [OF assms(1) this]
  show "\<exists>pf. portfolio_optimization pinv returns_data ''risk_parity'' = Inr pf \<and>
              list_all fnonneg (map snd (weights pf)) \<and> fsum (map snd (weights pf)) = Fin 1"
    by (simp add: optimize_risk_parity weights_of_result(2) assms(2))
next
  fix C
  assume h: "fin_rows (cov (map snd returns_data)) = Some C \<and>
              length (pinv C) = length C \<and> sum_list (map sum_list (pinv C)) \<noteq> 0"
  then have "length (min_variance_weights (pinv C)) = length returns_data"
    by (simp add: min_variance_weights_length cov_rows)
  with h show "\<exists>pf. portfolio_optimization pinv returns_data ''minimum_variance'' = Inr pf \<and>
              list_all isfinite (map snd (weights pf)) \<and> fsum (map snd (weights pf)) = Fin 1"
    by (simp add: optimize_min_variance weights_of_result(2) assms(2) min_variance_weights_ok)
qed

theorem portfolio_weights_by_method_witness:
  "[(''A'', [0, 1, 2]), (''B'', [0, 4, 2 :: real])] \<noteq> [] \<and>
   distinct (map fst [(''A'', [0, 1, 2]), (''B'', [0, 4, 2 :: real])]) \<and>
   list_all (\<lambda>c. fpos (std (map Fin (snd c)))) [(''A'', [0, 1, 2]), (''B'', [0, 4, 2])] \<and>
   fin_rows (cov (map snd [(''A'', [0, 1, 2]), (''B'', [0, 4, 2])])) = Some [[1, 1], [1, 4]] \<and>
   pinv_example [[1, 1], [1, 4]] = [[4 / 3, - (1 / 3)], [- (1 / 3), 1 / 3]] \<and>
   length (pinv_example [[1, 1], [1, 4]]) = length [[1, 1], [1, 4 :: real]] \<and>
   sum_list (map sum_list (pinv_example [[1, 1], [1, 4]])) \<noteq> 0 \<and>
   map_sum id weights
     (portfolio_optimization pinv_example [(''A'', [0, 1, 2]), (''B'', [0, 4, 2])]
        ''equal_weight'')
     = Inr [(''A'', Fin (1 / 2)), (''B'', Fin (1 / 2))] \<and>
   map_sum id weights
     (portfolio_optimization pinv_example [(''A'', [0, 1, 2]), (''B'', [0, 4, 2])]
        ''risk_parity'')
     = Inr [(''A'', Fin (2 / 3)), (''B'', Fin (1 / 3))] \<and>
   map_sum id weights
     (portfolio_optimization pinv_example [(''A'', [0, 1, 2]), (''B'', [0, 4, 2])]
        ''minimum_variance'')
     = Inr [(''A'', Fin 1), (''B'', Fin 0)]"
proof -
  have p: "pinv_example [[1, 1], [1, 4]] = [[4 / 3, - (1 / 3)], [- (1 / 3), 1 / 3]]"
    by (simp add: pinv_example_def)
  have e: "map_sum id weights
     (portfolio_optimization pinv_example [(''A'', [0, 1, 2]), (''B'', [0, 4, 2])]
        ''equal_weight'')
     = Inr [(''A'', Fin (1 / 2)), (''B'', Fin (1 / 2))]"
    by (simp add: portfolio_optimization_def portfolio_result_def equal_weights_def Let_def
        dict_of_def numeral_2_eq_2)
  have r: "map_sum id weights
     (portfolio_optimization pinv_example [(''A'', [0, 1, 2]), (''B'', [0, 4, 2])]
        ''risk_parity'')
     = Inr [(''A'', Fin (2 / 3)), (''B'', Fin (1 / 3))]"
    using std_examples
    by (simp add: portfolio_optimization_def portfolio_result_def risk_parity_weights_def Let_def
        fsum_skipna_def dropna_def fsum_def dict_of_def)
  have m: "map_sum id weights
     (portfolio_optimization pinv_example [(''A'', [0, 1, 2]), (''B'', [0, 4, 2])]
        ''minimum_variance'')
     = Inr [(''A'', Fin 1), (''B'', Fin 0)]"
    by (simp add: cov_example_regular weights_eval)
  have ne: "[(''A'', [0, 1, 2]), (''B'', [0, 4, 2 :: real])] \<noteq> []"
    and di: "distinct (map fst [(''A'', [0, 1, 2]), (''B'', [0, 4, 2 :: real])])"
    by simp_all
  from portfolio_weights_by_method [OF ne di, of pinv_example] std_examples
    cov_example_regular p e r m
  show ?thesis by simp
qed

text \<open>
  Claim C3 as stated fails: for two assets with the returns \<open>[0, 1, 2]\<close> and
  \<open>[1, 0, 5]\<close> the covariance matrix is regular and the minimum-variance weights
  are \<open>5 / 4\<close> and \<open>- 1 / 4\<close>.
\<close>

theorem portfolio_negative_weight_counterexample:
  "map_sum id weights
     (portfolio_optimization pinv_example [(''A'', [0, 1, 2]), (''B'', [1, 0, 5])]
        ''minimum_variance'')
   = Inr [(''A'', Fin (5 / 4)), (''B'', Fin (- (1 / 4)))] \<and>
   \<not> fnonneg (Fin (- (1 / 4)))"
  by (simp add: weights_example_negative)

text \<open>
  Claim C7, as amended.  With minimum variance, distinct asset ids and a defined
  covariance matrix, singular or not, for which \<open>np.linalg.pinv\<close> returns a matrix
  with one row for each asset, the optimizer raises no error.  When the raw weights
  (the row sums of that matrix) do not sum to \<open>0\<close>, every weight is finite and they
  sum to \<open>1\<close>.  When they sum to \<open>0\<close>, the optimizer still returns a result, none
  of its weights is finite, and every weight is NaN when every raw weight is \<open>0\<close>.
\<close>

theorem minimum_variance_singular_and_degenerate:
  assumes "fin_rows (cov (map snd returns_data)) = Some C"
    and "length (pinv C) = length C" and "distinct (map fst returns_data)"
  shows "\<exists>pf. portfolio_optimization pinv returns_data ''minimum_variance'' = Inr pf \<and>
              (if sum_list (map sum_list (pinv C)) \<noteq> 0
               then list_all isfinite (map snd (weights pf)) \<and>
                    fsum (map snd (weights pf)) = Fin 1
               else list_all (\<lambda>w. \<not> isfinite w) (map snd (weights pf))) \<and>
              (list_all (\<lambda>row. sum_list row = 0) (pinv C) \<longrightarrow>
                 list_all isnan (map snd (weights pf)))"
proof -
  from assms(1,2) have "length (min_variance_weights (pinv C)) = length returns_data"
    by (simp add: min_variance_weights_length cov_rows)
  then show ?thesis
    by (simp add: optimize_min_variance [OF assms(1)] weights_of_result(2) assms(3)
        min_variance_weights_ok min_variance_weights_degenerate min_variance_weights_all_zero)
qed

theorem minimum_variance_singular_and_degenerate_witness:
  "fin_rows (cov (map snd [(''A'', [0, 1, 2]), (''B'', [5, 5, 5])])) = Some [[1, 0], [0, 0]] \<and>
   pinv_example [[1, 0], [0, 0]] = [[1, 0], [0, 0]] \<and>
   length (pinv_example [[1, 0], [0, 0]]) = length [[1, 0], [0, 0 :: real]] \<and>
   distinct (map fst [(''A'', [0, 1, 2]), (''B'', [5, 5, 5 :: real])]) \<and>
   sum_list (map sum_list (pinv_example [[1, 0], [0, 0]])) \<noteq> 0 \<and>
   map_sum id weights
     (portfolio_optimization pinv_example [(''A'', [0, 1, 2]), (''B'', [5, 5, 5])]
        ''minimum_variance'')
   = Inr [(''A'', Fin 1), (''B'', Fin 0)] \<and>
   fin_rows (cov (map snd [(''A'', [3, 3, 3]), (''B'', [4, 4, 4])])) = Some [[0, 0], [0, 0]] \<and>
   pinv_example [[0, 0], [0, 0]] = [[0, 0], [0, 0]] \<and>
   list_all (\<lambda>row. sum_list row = 0) (pinv_example [[0, 0], [0, 0]]) \<and>
   map_sum id weights
     (portfolio_optimization pinv_example [(''A'', [3, 3, 3]), (''B'', [4, 4, 4])]
        ''minimum_variance'')
   = Inr [(''A'', NaN), (''B'', NaN)]"
proof -
  have c: "fin_rows (cov (map snd [(''A'', [0, 1, 2]), (''B'', [5, 5, 5])])) = Some [[1, 0], [0, 0]]"
    by (simp add: cov_example_singular)
  have p: "pinv_example [[1, 0], [0, 0]] = [[1, 0], [0, 0]]"
    by (simp add: pinv_example_def)
  have l: "length (pinv_example [[1, 0], [0, 0]]) = length [[1, 0], [0, 0 :: real]]"
    by (simp add: p)
  have d: "distinct (map fst [(''A'', [0, 1, 2]), (''B'', [5, 5, 5 :: real])])" by simp
  have c0: "fin_rows (cov (map snd [(''A'', [3, 3, 3]), (''B'', [4, 4, 4])])) = Some [[0, 0], [0, 0]]"
    by (simp add: cov_def covariance_def)
  have p0: "pinv_example [[0, 0], [0, 0]] = [[0, 0], [0, 0]]"
    by (simp add: pinv_example_def)
  have l0: "length (pinv_example [[0, 0], [0, 0]]) = length [[0, 0], [0, 0 :: real]]"
    by (simp add: p0)
  have d0: "distinct (map fst [(''A'', [3, 3, 3]), (''B'', [4, 4, 4 :: real])])" by simp
  have w0: "map_sum id weights
     (portfolio_optimization pinv_example [(''A'', [3, 3, 3]), (''B'', [4, 4, 4])]
        ''minimum_variance'')
   = Inr [(''A'', NaN), (''B'', NaN)]"
    using c0 by (simp add: weights_eval)
  from minimum_variance_singular_and_degenerate [of _ _ pinv_example, OF c l d]
    minimum_variance_singular_and_degenerate [of _ _ pinv_example, OF c0 l0 d0]
    c p l c0 p0 w0 weights_example_singular
  show ?thesis by simp
qed

text \<open>
  Claim C7 as stated fails: for two assets with the constant returns \<open>[1, 1, 1]\<close> and
  \<open>[2, 2, 2]\<close> the covariance matrix is the zero matrix, whose pseudoinverse is the
  zero matrix, the raw weights are both \<open>0\<close>, and the optimizer returns a result
  whose weights are both NaN; no error is raised.
\<close>

theorem minimum_variance_degenerate_counterexample:
  "map_sum id weights
     (portfolio_optimization pinv_example [(''A'', [1, 1, 1]), (''B'', [2, 2, 2])]
        ''minimum_variance'')
   = Inr [(''A'', NaN), (''B'', NaN)]"
  by (rule weights_example_degenerate)

section \<open>Windows longer than the series\<close>

lemma window_of_NaN:
  assumes "0 < w" "w \<le> Suc t" "t < n"
  shows "\<not> list_all isfinite (take w (drop (Suc t - w) (replicate n NaN)))"
proof -
  from assms have "0 < min w (n - (Suc t - w))" by simp
  then obtain m where "min w (n - (Suc t - w)) = Suc m" by (cases "min w (n - (Suc t - w))") simp_all
  then show ?thesis by simp
qed

lemma rolling_nat_NaN: "rolling_nat w agg (replicate n NaN) = replicate n NaN"
proof (rule nth_equalityI)
  show "length (rolling_nat w agg (replicate n NaN)) = length (replicate n NaN)"
    by (simp add: rolling_nat_length)
next
  fix t assume "t < length (rolling_nat w agg (replicate n NaN))"
  then have t: "t < n" by (simp add: rolling_nat_length)
  show "rolling_nat w agg (replicate n NaN) ! t = replicate n NaN ! t"
  proof (cases "w = 0 \<or> Suc t < w")
    case True
    with t show ?thesis by (simp add: rolling_nat_nth)
  next
    case False
    then have "0 < w" "w \<le> Suc t" by simp_all
    from window_of_NaN [OF this t] t False show ?thesis
      by (simp add: rolling_nat_nth)
  qed
qed

lemma map2_NaN_right:
  assumes "\<And>x. f x NaN = NaN" "length xs = n"
  shows "map2 f xs (replicate n NaN) = replicate n NaN"
  using assms by (intro nth_equalityI) simp_all

lemma rolling_short:
  "int (length xs) < w \<Longrightarrow> rolling w agg xs = Inr (replicate (length xs) NaN)"
  using rolling_nat_short [of xs "nat w" agg] by (simp add: rolling_def)

lemma rolling_NaN:
  "0 \<le> w \<Longrightarrow> rolling w agg (replicate n NaN) = Inr (replicate n NaN)"
  by (simp add: rolling_def rolling_nat_NaN)

lemma atr_short:
  assumes "int (length high) < window" "length low = length high" "length close = length high"
  shows "atr high low close window = Inr (replicate (length high) NaN)"
proof -
  have "rolling window mean xs = Inr (replicate (length high) NaN)"
    if "length xs = length high" for xs
    using rolling_short [of xs window mean] that assms(1) by simp
  then show ?thesis
    using assms(2,3) by (simp add: atr_def Let_def shift1_length)
qed

lemma stochastic_short_k:
  assumes "int (length high) < k_window" "length low = length high" "length close = length high"
    and "0 \<le> d_window"
  shows "stochastic_oscillator high low close k_window d_window =
           Inr \<lparr> k_percent = replicate (length high) NaN,
                 d_percent = replicate (length high) NaN \<rparr>"
proof -
  let ?n = "length high"
  have lo: "rolling k_window fmin_skipna (map Fin low) = Inr (replicate ?n NaN)"
    using rolling_short [of "map Fin low" k_window fmin_skipna] assms(1,2) by simp
  have hi: "rolling k_window fmax_skipna (map Fin high) = Inr (replicate ?n NaN)"
    using rolling_short [of "map Fin high" k_window fmax_skipna] assms(1) by simp
  have "map2 fdiv (map2 fsub (map Fin close) (replicate ?n NaN)) (replicate ?n NaN)
      = replicate ?n NaN"
    using assms(3) by (intro map2_NaN_right) (simp_all add: fl_NaN_right)
  then have k: "map (fmul (Fin 100))
                (map2 fdiv (map2 fsub (map Fin close) (replicate ?n NaN))
                           (map2 fsub (replicate ?n NaN) (replicate ?n NaN)))
      = replicate ?n NaN"
    by (simp add: fsub_def)
  show ?thesis
    unfolding stochastic_oscillator_def lo hi sum.case Let_def k
    by (simp add: rolling_NaN [OF assms(4)])
qed

lemma stochastic_short_d:
  assumes "int (length high) < d_window" "length low = length high" "length close = length high"
    and "0 \<le> k_window"
  shows "\<exists>s. stochastic_oscillator high low close k_window d_window = Inr s \<and>
             length (k_percent s) = length high \<and>
             d_percent s = replicate (length high) NaN"
proof -
  obtain ll hh where lo: "rolling k_window fmin_skipna (map Fin low) = Inr ll"
    and hi: "rolling k_window fmax_skipna (map Fin high) = Inr hh"
    and len: "length ll = length high" "length hh = length high"
    using assms(2,4) by (simp add: rolling_def rolling_nat_length)
  let ?k = "map (fmul (Fin 100))
                (map2 fdiv (map2 fsub (map Fin close) ll) (map2 fsub hh ll))"
  have kl: "length ?k = length high" using len assms(3) by simp
  then have "rolling d_window mean ?k = Inr (replicate (length high) NaN)"
    using rolling_short [of ?k d_window mean] assms(1) by simp
  with kl show ?thesis
    unfolding stochastic_oscillator_def lo hi sum.case Let_def by simp
qed

text \<open>
  Claim C8.  When the window is longer than the series, the rolling-window indicators
  (the simple moving average, the three Bollinger bands, the RSI, the average true range
  and the stochastic oscillator) raise no error and return series of the length of the
  input in which every position is missing.  For the stochastic oscillator a \<open>%K\<close>
  window that is too long leaves both lines missing, and a \<open>%D\<close> window that is too
  long leaves the \<open>%D\<close> line missing.
\<close>

theorem window_longer_than_series:
  assumes "int (length data) < window"
    and "length high = length data" and "length low = length data"
    and "length close = length data" and "0 \<le> other_window"
  shows "simple_moving_average data window = Inr (replicate (length data) NaN) \<and>
         bollinger_bands data window num_std =
           Inr \<lparr> upper = replicate (length data) NaN,
                 middle = replicate (length data) NaN,
                 lower = replicate (length data) NaN \<rparr> \<and>
         rsi data window = Inr (replicate (length data) NaN) \<and>
         atr high low close window = Inr (replicate (length data) NaN) \<and>
         stochastic_oscillator high low close window other_window =
           Inr \<lparr> k_percent = replicate (length data) NaN,
                 d_percent = replicate (length data) NaN \<rparr> \<and>
         (\<exists>s. stochastic_oscillator high low close other_window window = Inr s \<and>
              length (k_percent s) = length data \<and>
              d_percent s = replicate (length data) NaN)"
proof -
  have r: "rolling window agg xs = Inr (replicate (length data) NaN)"
    if "length xs = length data" for agg xs
    using rolling_short [of xs window agg] that assms(1) by simp
  have sma: "simple_moving_average data window = Inr (replicate (length data) NaN)"
    by (simp add: simple_moving_average_def r)
  have bb: "bollinger_bands data window num_std =
           Inr \<lparr> upper = replicate (length data) NaN,
                 middle = replicate (length data) NaN,
                 lower = replicate (length data) NaN \<rparr>"
    by (simp add: bollinger_bands_def r fsub_def)
  have rs: "rsi data window = Inr (replicate (length data) NaN)"
    by (simp add: rsi_def rsi_gain_def rsi_loss_def r diff_length fsub_def)
  from assms have h: "int (length high) < window" "length low = length high"
    "length close = length high" by simp_all
  note a = atr_short [OF h] and k = stochastic_short_k [OF h assms(5)]
    and d = stochastic_short_d [OF h assms(5)]
  from sma bb rs a k d assms(2) show ?thesis by simp
qed

theorem window_longer_than_series_witness:
  "int (length [10, 11 :: real]) < 3 \<and>
   length [11, 12 :: real] = length [10, 11 :: real] \<and>
   length [9, 10 :: real] = length [10, 11 :: real] \<and> (0::int) \<le> 1 \<and>
   simple_moving_average [10, 11] 3 = Inr [NaN, NaN] \<and>
   bollinger_bands [10, 11] 3 2 = Inr \<lparr> upper = [NaN, NaN], middle = [NaN, NaN], lower = [NaN, NaN] \<rparr> \<and>
   rsi [10, 11] 3 = Inr [NaN, NaN] \<and>
   atr [11, 12] [9, 10] [10, 11] 3 = Inr [NaN, NaN] \<and>
   stochastic_oscillator [11, 12] [9, 10] [10, 11] 3 1 =
     Inr \<lparr> k_percent = [NaN, NaN], d_percent = [NaN, NaN] \<rparr> \<and>
   stochastic_oscillator [11, 12] [9, 10] [10, 11] 1 3 =
     Inr \<lparr> k_percent = [Fin 50, Fin 50], d_percent = [NaN, NaN] \<rparr>"
proof -
  have s: "stochastic_oscillator [11, 12] [9, 10] [10, 11] 1 3 =
     Inr \<lparr> k_percent = [Fin 50, Fin 50], d_percent = [NaN, NaN] \<rparr>"
    by (simp add: stochastic_oscillator_def rolling_def rolling_nat_def fmin_skipna_def
        fmax_skipna_def fsub_def Let_def numeral_2_eq_2 numeral_3_eq_3)
  from window_longer_than_series [of "[10, 11]" 3 "[11, 12]" "[9, 10]" "[10, 11]" 1 2] s
  show ?thesis by (simp add: numeral_2_eq_2)
qed

end
